theory Spec2Isabelle
  imports Main "HOL-Library.Word"
begin

unbundle bit_operations_syntax

section \<open>Trace ingestion: the data model\<close>

text \<open>
  The Go package \<open>tracing\<close> (file \<open>src/unnamed/part_000\<close>) turns OTLP wire spans into
  rows. Go strings are byte strings, so they are \<open>string\<close> here (a \<open>char\<close> is a byte and
  \<open>length\<close> counts bytes, as Go's \<open>len\<close> does). Go's \<open>uint8\<close>, \<open>uint32\<close>, \<open>uint64\<close> and
  \<open>int64\<close> are words: \<open>+\<close> and \<open>-\<close> wrap, \<open>unat\<close>/\<open>uint\<close> read a word unsigned and \<open>sint\<close>
  reads it in two's complement.

  Where Go reuses a field name in several structs (\<open>Name\<close>, \<open>Kind\<close>, \<open>Attrs\<close>, ...), the
  built \<open>Span\<close> keeps the plain name and the other records carry a short prefix.
\<close>

type_synonym u8 = "8 word"
type_synonym u32 = "32 word"
type_synonym u64 = "64 word"
type_synonym u128 = "128 word"
type_synonym i64 = "64 word"

text \<open>
  Modelled from the spec: the attribute value type behind \<open>AttrMap\<close> (declared outside
  \<open>src/\<close>), a tagged variant over string, bool, int64, float64 and arrays of these. A
  float64 is kept as its 64 bits; no claim computes with it.
\<close>

datatype AttrValue =
    AString string
  | ABool bool
  | AInt64 i64
  | AFloat64 u64
  | AStringArray "string list"
  | ABoolArray "bool list"
  | AInt64Array "i64 list"
  | AFloat64Array "u64 list"

text \<open>
  Modelled from the spec: \<open>AttrMap\<close> (declared outside \<open>src/\<close>), a Go map from string
  keys to attribute values: keys are unique and there is no insertion order.
\<close>

type_synonym AttrMap = "string \<Rightarrow> AttrValue option"

text \<open>
  Modelled from the spec: the methods \<open>AttrMap.Text\<close>, \<open>AttrMap.Has\<close> and
  \<open>AttrMap.ServiceName\<close> (not under \<open>src/\<close>). \<open>Text\<close> is the string stored under the
  key, or the empty string when the key is absent or holds no string; \<open>Has\<close> tells
  whether the key is present; \<open>ServiceName\<close> is \<open>attrs["service.name"]\<close> or the empty
  string.
\<close>

definition AttrMap_Text :: "AttrMap \<Rightarrow> string \<Rightarrow> string" where
  "AttrMap_Text m key = (case m key of Some (AString s) \<Rightarrow> s | _ \<Rightarrow> [])"

definition AttrMap_Has :: "AttrMap \<Rightarrow> string \<Rightarrow> bool" where
  "AttrMap_Has m key = (case m key of Some v \<Rightarrow> True | None \<Rightarrow> False)"

named_theorems xattr_defs \<open>the attribute keys of package xattr and the span type constants\<close>

text \<open>
  Modelled from the spec: the attribute keys of package \<open>xattr\<close> (not under \<open>src/\<close>),
  with the names the spec gives them.
\<close>

definition xattr_ServiceName :: string where [xattr_defs]: "xattr_ServiceName = ''service.name''"
definition xattr_HostName :: string where [xattr_defs]: "xattr_HostName = ''host.name''"
definition xattr_RPCSystem :: string where [xattr_defs]: "xattr_RPCSystem = ''rpc.system''"
definition xattr_MessagingSystem :: string where [xattr_defs]: "xattr_MessagingSystem = ''messaging.system''"
definition xattr_MessagingOperation :: string where [xattr_defs]: "xattr_MessagingOperation = ''messaging.operation''"
definition xattr_DBSystem :: string where [xattr_defs]: "xattr_DBSystem = ''db.system''"
definition xattr_DBSqlTable :: string where [xattr_defs]: "xattr_DBSqlTable = ''db.sql.table''"
definition xattr_DBStatement :: string where [xattr_defs]: "xattr_DBStatement = ''db.statement''"
definition xattr_HTTPRoute :: string where [xattr_defs]: "xattr_HTTPRoute = ''http.route''"
definition xattr_HTTPTarget :: string where [xattr_defs]: "xattr_HTTPTarget = ''http.target''"
definition xattr_LogMessage :: string where [xattr_defs]: "xattr_LogMessage = ''log.message''"
definition xattr_LogSeverity :: string where [xattr_defs]: "xattr_LogSeverity = ''log.severity''"
definition xattr_ExceptionType :: string where [xattr_defs]: "xattr_ExceptionType = ''exception.type''"
definition xattr_ExceptionMessage :: string where [xattr_defs]: "xattr_ExceptionMessage = ''exception.message''"
definition xattr_OtelLibraryName :: string where [xattr_defs]: "xattr_OtelLibraryName = ''otel.library.name''"
definition xattr_OtelLibraryVersion :: string where [xattr_defs]: "xattr_OtelLibraryVersion = ''otel.library.version''"

definition AttrMap_ServiceName :: "AttrMap \<Rightarrow> string" where
  "AttrMap_ServiceName m = (case m xattr_ServiceName of Some (AString s) \<Rightarrow> s | _ \<Rightarrow> [])"

subsection \<open>The wire types (package tracepb)\<close>

text \<open>
  The OTLP messages are generated protobuf structs of another module. A message field
  that holds a pointer (\<open>Status\<close>, \<open>Resource\<close>, \<open>InstrumentationLibrary\<close>) may be nil and
  is an \<open>option\<close>.

  Modelled from the spec: the attribute lists of the wire (\<open>Attributes\<close>) are mappings
  from string to value, and the helpers \<open>otlpAttrs\<close> and \<open>otlpSetAttrs\<close> (not under
  \<open>src/\<close>) convert such a mapping to an \<open>AttrMap\<close> and overlay it on an existing
  \<open>AttrMap\<close>, overwriting on key collision.
\<close>

type_synonym KeyValues = "string \<Rightarrow> AttrValue option"

definition otlpSetAttrs :: "AttrMap \<Rightarrow> KeyValues \<Rightarrow> AttrMap" where
  "otlpSetAttrs dest kvs = dest ++ kvs"

definition otlpAttrs :: "KeyValues \<Rightarrow> AttrMap" where
  "otlpAttrs kvs = otlpSetAttrs Map.empty kvs"

datatype Span_SpanKind =
    SPAN_KIND_UNSPECIFIED
  | SPAN_KIND_INTERNAL
  | SPAN_KIND_SERVER
  | SPAN_KIND_CLIENT
  | SPAN_KIND_PRODUCER
  | SPAN_KIND_CONSUMER

datatype Status_StatusCode = STATUS_CODE_UNSET | STATUS_CODE_OK | STATUS_CODE_ERROR

record Status =
  Code :: Status_StatusCode
  Message :: string

record Span_Event =
  eName :: string
  eTimeUnixNano :: u64
  eAttributes :: KeyValues

record Span_Link =
  lTraceId :: "8 word list"
  lSpanId :: "8 word list"
  lAttributes :: KeyValues

record tracepb_Span =
  TraceId :: "8 word list"
  SpanId :: "8 word list"
  ParentSpanId :: "8 word list"
  wName :: string
  wKind :: Span_SpanKind
  StartTimeUnixNano :: u64
  EndTimeUnixNano :: u64
  Attributes :: KeyValues
  wEvents :: "Span_Event list"
  wLinks :: "Span_Link list"
  wStatus :: "Status option"

text \<open>\<open>bunapp.Project\<close> (\<open>src/pkg/bunapp/config.go\<close>).\<close>

record Project =
  pID :: u32
  pName :: string
  pToken :: string

text \<open>
  \<open>otlpSpan\<close>: the item of the ingress channel, as \<open>newSpan\<close> reads it. \<open>pbSpan\<close> is
  the embedded \<open>*tracepb.Span\<close>; \<open>resource\<close> is the content the item's resource map has
  at that moment.
\<close>

record otlpSpan =
  project :: Project
  pbSpan :: tracepb_Span
  resource :: AttrMap

subsection \<open>The built rows\<close>

text \<open>
  Modelled from the spec: the structs \<open>SpanEvent\<close>, \<open>SpanLink\<close>, \<open>Span\<close> and
  \<open>SpanIndex\<close> are declared outside \<open>src/\<close>; their fields are those the code assigns,
  with the types of the spec's data model. \<open>Time\<close> is the \<open>int64\<close> count of nanoseconds
  since the epoch and \<open>Duration\<close> is Go's \<open>time.Duration\<close>, an \<open>int64\<close> of nanoseconds.
\<close>

record SpanEvent =
  evName :: string
  evAttrs :: AttrMap
  evTime :: i64

record SpanLink =
  lnTraceID :: u128
  lnSpanID :: u64
  lnAttrs :: AttrMap

record Span =
  ProjectID :: u32
  ID :: u64
  ParentID :: u64
  TraceID :: u128
  Name :: string
  Kind :: string
  System :: string
  GroupID :: u64
  Time :: i64
  Duration :: i64
  StatusCode :: string
  StatusMessage :: string
  Attrs :: AttrMap
  Events :: "SpanEvent list"
  Links :: "SpanLink list"

record SpanIndex =
  ixSpan :: Span
  Count :: u32
  AttrKeys :: "string list"
  AttrValues :: "string list"
  ServiceName :: string
  HostName :: string
  EventCount :: u8
  EventErrorCount :: u8
  EventLogCount :: u8

text \<open>The zero values Go's \<open>make([]Span, n)\<close> and \<open>make([]SpanIndex, n)\<close> fill the slices with.\<close>

definition zeroSpan :: Span where
  "zeroSpan =
     \<lparr>ProjectID = 0, ID = 0, ParentID = 0, TraceID = 0, Name = [], Kind = [], System = [],
      GroupID = 0, Time = 0, Duration = 0, StatusCode = [], StatusMessage = [],
      Attrs = Map.empty, Events = [], Links = []\<rparr>"

definition zeroSpanIndex :: SpanIndex where
  "zeroSpanIndex =
     \<lparr>ixSpan = zeroSpan, Count = 0, AttrKeys = [], AttrValues = [], ServiceName = [],
      HostName = [], EventCount = 0, EventErrorCount = 0, EventLogCount = 0\<rparr>"

section \<open>The span builder\<close>

subsection \<open>Helpers that are not under src/\<close>

text \<open>
  Modelled from the spec: \<open>otlpSpanID\<close> and \<open>otlpTraceID\<close> (not under \<open>src/\<close>), the
  little-endian numeric decoding of the wire byte arrays; all-zero or empty bytes decode
  to 0.
\<close>

fun otlpSpanID :: "8 word list \<Rightarrow> u64" where
  "otlpSpanID [] = 0"
| "otlpSpanID (b # bs) = ucast b + 256 * otlpSpanID bs"

fun otlpTraceID :: "8 word list \<Rightarrow> u128" where
  "otlpTraceID [] = 0"
| "otlpTraceID (b # bs) = ucast b + 256 * otlpTraceID bs"

text \<open>
  Modelled from the spec: \<open>otlpSpanKind\<close> and the constant \<open>internalSpanKind\<close> (not under
  \<open>src/\<close>): the kind is the lowercase name of the enum variant.
\<close>

definition internalSpanKind :: string where [xattr_defs]: "internalSpanKind = ''internal''"

fun otlpSpanKind :: "Span_SpanKind \<Rightarrow> string" where
  "otlpSpanKind SPAN_KIND_UNSPECIFIED = ''unspecified''"
| "otlpSpanKind SPAN_KIND_INTERNAL = ''internal''"
| "otlpSpanKind SPAN_KIND_SERVER = ''server''"
| "otlpSpanKind SPAN_KIND_CLIENT = ''client''"
| "otlpSpanKind SPAN_KIND_PRODUCER = ''producer''"
| "otlpSpanKind SPAN_KIND_CONSUMER = ''consumer''"

text \<open>
  Modelled from the spec: \<open>otlpStatusCode\<close> (not under \<open>src/\<close>): unset gives \<open>"unset"\<close>,
  ok gives \<open>"ok"\<close>, error gives \<open>"error"\<close>.
\<close>

fun otlpStatusCode :: "Status_StatusCode \<Rightarrow> string" where
  "otlpStatusCode STATUS_CODE_UNSET = ''unset''"
| "otlpStatusCode STATUS_CODE_OK = ''ok''"
| "otlpStatusCode STATUS_CODE_ERROR = ''error''"

text \<open>
  Modelled from the spec: \<open>truncate\<close> (not under \<open>src/\<close>; named \<open>truncate_str\<close> here,
  since every record declares a \<open>truncate\<close> of its own), the UTF-8-safe truncation to at
  most \<open>n\<close> bytes: a string of at most \<open>n\<close> bytes is kept; a longer one is cut at the last
  position \<open>i \<le> n\<close> that does not split a character, that is, where byte \<open>i\<close> is not a
  UTF-8 continuation byte (\<open>10xxxxxx\<close>).
\<close>

definition is_utf8_continuation :: "char \<Rightarrow> bool" where
  "is_utf8_continuation c = (128 \<le> (of_char c :: nat) \<and> (of_char c :: nat) < 192)"

fun utf8_boundary :: "string \<Rightarrow> nat \<Rightarrow> nat" where
  "utf8_boundary s 0 = 0"
| "utf8_boundary s (Suc i) =
     (if Suc i < length s \<and> is_utf8_continuation (s ! Suc i) then utf8_boundary s i else Suc i)"

definition truncate_str :: "string \<Rightarrow> nat \<Rightarrow> string" where
  "truncate_str s n = (if length s \<le> n then s else take (utf8_boundary s n) s)"

subsection \<open>Events and links\<close>

definition logEventType :: string where [xattr_defs]: "logEventType = ''log''"
definition exceptionEventType :: string where [xattr_defs]: "exceptionEventType = ''exception''"
definition messageEventType :: string where [xattr_defs]: "messageEventType = ''message''"

text \<open>\<open>strings.HasPrefix\<close> of the Go library.\<close>

definition HasPrefix :: "string \<Rightarrow> string \<Rightarrow> bool" where
  "HasPrefix s pre = (length pre \<le> length s \<and> take (length pre) s = pre)"

definition joinTypeMessage :: "string \<Rightarrow> string \<Rightarrow> string" where
  "joinTypeMessage typ msg =
     (if msg = [] then (if typ = [] then [] else typ)
      else if HasPrefix msg typ then msg
      else typ @ '': '' @ msg)"

definition eventName :: "Span \<Rightarrow> SpanEvent \<Rightarrow> string" where
  "eventName span event =
     (if evName event = logEventType then
        (if AttrMap_Text (evAttrs event) xattr_LogMessage \<noteq> [] then
           (if AttrMap_Text (evAttrs event) xattr_LogSeverity \<noteq> [] then
              AttrMap_Text (evAttrs event) xattr_LogSeverity @ '' '' @
              AttrMap_Text (evAttrs event) xattr_LogMessage
            else AttrMap_Text (evAttrs event) xattr_LogMessage)
         else if AttrMap_Text (evAttrs event) xattr_ExceptionType \<noteq> [] \<or>
                 AttrMap_Text (evAttrs event) xattr_ExceptionMessage \<noteq> [] then
           joinTypeMessage (AttrMap_Text (evAttrs event) xattr_ExceptionType)
             (AttrMap_Text (evAttrs event) xattr_ExceptionMessage)
         else [])
      else if evName event = exceptionEventType then
        joinTypeMessage (AttrMap_Text (evAttrs event) xattr_ExceptionType)
          (AttrMap_Text (evAttrs event) xattr_ExceptionMessage)
      else if evName event = messageEventType then
        (if AttrMap_Text (evAttrs event) xattr_MessagingOperation \<noteq> [] then
           Name span @ '' '' @ AttrMap_Text (evAttrs event) xattr_MessagingOperation
         else if AttrMap_Text (evAttrs event) ''message.type'' \<noteq> [] then
           Name span @ '' '' @ AttrMap_Text (evAttrs event) ''message.type''
         else [])
      else [])"

definition newSpanEvent :: "Span \<Rightarrow> Span_Event \<Rightarrow> SpanEvent" where
  "newSpanEvent span inp =
     (let event = \<lparr>evName = eName inp, evAttrs = otlpAttrs (eAttributes inp),
                   evTime = eTimeUnixNano inp\<rparr>
      in if eventName span event \<noteq> [] then event\<lparr>evName := eventName span event\<rparr> else event)"

definition newSpanLink :: "Span_Link \<Rightarrow> SpanLink" where
  "newSpanLink link =
     \<lparr>lnTraceID = otlpTraceID (lTraceId link), lnSpanID = otlpSpanID (lSpanId link),
      lnAttrs = otlpAttrs (lAttributes link)\<rparr>"

subsection \<open>The fingerprinter\<close>

text \<open>
  \<open>xxhash.Digest\<close> belongs to another module. A digest is the bytes written to it so
  far: \<open>xxhash.New\<close> starts with none, \<open>WriteString\<close> appends, and \<open>Sum64\<close> is the 64-bit
  hash of all of them. The hash function is the parameter \<open>h\<close> of \<open>newSpan\<close>; section
  \<open>XXH64\<close> below gives the function the library computes.
\<close>

type_synonym Digest = string

definition xxhash_New :: Digest where
  "xxhash_New = []"

definition WriteString :: "Digest \<Rightarrow> string \<Rightarrow> Digest" where
  "WriteString digest s = digest @ s"

text \<open>
  The tokenizer of package \<open>sqlparser\<close> is not under \<open>src/\<close> and the spec does not
  describe it. It is the parameter \<open>tk\<close>: \<open>tk s\<close> is the sequence of tokens that
  \<open>NextToken\<close> returns for the statement \<open>s\<close> before it returns \<open>io.EOF\<close>, for a
  tokenizer that reaches \<open>io.EOF\<close> on every statement (the loop of \<open>hashDBStmt\<close> ends on
  no other error). Of the token types only \<open>IdentToken\<close> is named by the code.
\<close>

datatype TokenType = IdentToken | LiteralToken | OtherToken

datatype Token = Token (Type: TokenType) (Text: string)

definition internalSpanType :: string where [xattr_defs]: "internalSpanType = ''internal''"
definition httpSpanType :: string where [xattr_defs]: "httpSpanType = ''http''"
definition dbSpanType :: string where [xattr_defs]: "dbSpanType = ''db''"
definition rpcSpanType :: string where [xattr_defs]: "rpcSpanType = ''rpc''"
definition messagingSpanType :: string where [xattr_defs]: "messagingSpanType = ''messaging''"
definition serviceSpanType :: string where [xattr_defs]: "serviceSpanType = ''service''"

text \<open>
  \<open>strings.ToUpper\<close> of the Go library maps Unicode letters, not only ASCII ones; it is
  the parameter \<open>up\<close>.
\<close>

definition isSQLKeyword :: "(string \<Rightarrow> string) \<Rightarrow> string \<Rightarrow> bool" where
  "isSQLKeyword up s =
     (up s \<in> set [''SELECT'', ''INSERT'', ''UPDATE'', ''DELETE'', ''CREATE'', ''DROP'',
                   ''TRUNCATE'', ''WITH'', ''FROM'', ''TABLE'', ''JOIN'', ''UNION'', ''WHERE'',
                   ''GROUP'', ''LIMIT'', ''ORDER'', ''HAVING''])"

text \<open>The loop of \<open>hashDBStmt\<close>, over the tokens up to \<open>io.EOF\<close>.\<close>

fun hashDBStmt_loop :: "(string \<Rightarrow> string) \<Rightarrow> Digest \<Rightarrow> Token list \<Rightarrow> Digest" where
  "hashDBStmt_loop up digest [] = digest"
| "hashDBStmt_loop up digest (token # rest) =
     hashDBStmt_loop up
       (if Type token = IdentToken \<and> isSQLKeyword up (Text token)
        then WriteString digest (Text token) else digest)
       rest"

definition hashDBStmt ::
  "(string \<Rightarrow> string) \<Rightarrow> (string \<Rightarrow> Token list) \<Rightarrow> Digest \<Rightarrow> string \<Rightarrow> Digest" where
  "hashDBStmt up tk digest s = hashDBStmt_loop up digest (tk s)"

text \<open>
  \<open>assignSystemAndGroupID\<close> updates the span and the digest it is given; the model
  returns both.
\<close>

definition assignSystemAndGroupID ::
  "(string \<Rightarrow> string) \<Rightarrow> (string \<Rightarrow> Token list) \<Rightarrow> Span \<Rightarrow> Digest \<Rightarrow> Span \<times> Digest" where
  "assignSystemAndGroupID up tk span digest =
     (if AttrMap_Text (Attrs span) xattr_RPCSystem \<noteq> [] then
        (let span1 = span\<lparr>System := rpcSpanType @ '':'' @ AttrMap_ServiceName (Attrs span)\<rparr>
         in (span1, WriteString digest (System span1)))
      else if AttrMap_Text (Attrs span) xattr_MessagingSystem \<noteq> [] then
        (let span1 = span\<lparr>System := messagingSpanType @ '':'' @
                                      AttrMap_Text (Attrs span) xattr_MessagingSystem\<rparr>
         in (span1, WriteString digest (System span1)))
      else if AttrMap_Text (Attrs span) xattr_DBSystem \<noteq> [] then
        (let span1 = span\<lparr>System := dbSpanType @ '':'' @ AttrMap_Text (Attrs span) xattr_DBSystem\<rparr>;
             digest1 = WriteString digest (System span1);
             digest2 = (if AttrMap_Text (Attrs span1) xattr_DBSqlTable \<noteq> []
                        then WriteString digest1 (AttrMap_Text (Attrs span1) xattr_DBSqlTable)
                        else digest1)
         in if AttrMap_Text (Attrs span1) xattr_DBStatement \<noteq> [] then
              (span1\<lparr>Name := AttrMap_Text (Attrs span1) xattr_DBStatement\<rparr>,
               hashDBStmt up tk digest2 (AttrMap_Text (Attrs span1) xattr_DBStatement))
            else (span1, digest2))
      else if AttrMap_Has (Attrs span) xattr_HTTPRoute \<or> AttrMap_Has (Attrs span) xattr_HTTPTarget then
        (let span1 = span\<lparr>System := httpSpanType @ '':'' @ AttrMap_ServiceName (Attrs span)\<rparr>
         in (span1, WriteString digest (System span1)))
      else if ParentID span = 0 \<or> Kind span \<noteq> internalSpanKind then
        (let span1 = span\<lparr>System := serviceSpanType @ '':'' @ AttrMap_ServiceName (Attrs span)\<rparr>
         in (span1, WriteString digest (System span1)))
      else
        (let span1 = span\<lparr>System := internalSpanType\<rparr>
         in (span1, WriteString digest (System span1))))"

subsection \<open>newSpan\<close>

text \<open>
  \<open>newSpan\<close> fills \<open>out\<close> from the item \<open>span\<close>. The \<open>range\<close> loop over \<open>span.resource\<close>
  copies every entry into a fresh empty map, whatever the order of the visit, so its
  result is \<open>Map.empty ++ resource span\<close>. The conversion \<open>int64(x)\<close> and
  \<open>time.Duration(x)\<close> of a \<open>uint64\<close> keep the 64 bits.
\<close>

definition newSpan ::
  "(string \<Rightarrow> u64) \<Rightarrow> (string \<Rightarrow> string) \<Rightarrow> (string \<Rightarrow> Token list) \<Rightarrow> otlpSpan \<Rightarrow> Span \<Rightarrow> Span" where
  "newSpan h up tk span out =
     (let out1 = out\<lparr>ID := otlpSpanID (SpanId (pbSpan span)),
                     ParentID := otlpSpanID (ParentSpanId (pbSpan span)),
                     TraceID := otlpTraceID (TraceId (pbSpan span)),
                     Name := wName (pbSpan span),
                     Kind := otlpSpanKind (wKind (pbSpan span)),
                     Time := StartTimeUnixNano (pbSpan span),
                     Duration := EndTimeUnixNano (pbSpan span) - StartTimeUnixNano (pbSpan span)\<rparr>;
          out2 = (case wStatus (pbSpan span) of
                    None \<Rightarrow> out1
                  | Some st \<Rightarrow> out1\<lparr>StatusCode := otlpStatusCode (Code st),
                                     StatusMessage := Message st\<rparr>);
          out3 = out2\<lparr>Attrs := otlpSetAttrs (Map.empty ++ resource span) (Attributes (pbSpan span))\<rparr>;
          out4 = out3\<lparr>Events := map (newSpanEvent out3) (wEvents (pbSpan span))\<rparr>;
          out5 = out4\<lparr>Links := map newSpanLink (wLinks (pbSpan span))\<rparr>;
          digest = WriteString (WriteString xxhash_New (Kind out5)) (Name out5);
          res = assignSystemAndGroupID up tk out5 digest
      in (fst res)\<lparr>GroupID := h (snd res)\<rparr>)"

subsection \<open>newSpanIndex\<close>

text \<open>
  Go's \<open>range\<close> over a map visits every key once, in an order the runtime chooses.
  \<open>order\<close> is that order: a list of the keys of the map without repetition. \<open>asString\<close>
  (not under \<open>src/\<close>; it renders floats) is a parameter.
\<close>

fun attrKeysAndValues_loop ::
  "(AttrValue \<Rightarrow> string) \<Rightarrow> AttrMap \<Rightarrow> string list \<Rightarrow> string list \<times> string list \<Rightarrow>
   string list \<times> string list" where
  "attrKeysAndValues_loop asString m [] (keys, values) = (keys, values)"
| "attrKeysAndValues_loop asString m (k # ks) (keys, values) =
     (case m k of
        None \<Rightarrow> attrKeysAndValues_loop asString m ks (keys, values)
      | Some v \<Rightarrow>
          attrKeysAndValues_loop asString m ks
            (keys @ [k], values @ [truncate_str (asString v) 200]))"

definition attrKeysAndValues ::
  "(AttrValue \<Rightarrow> string) \<Rightarrow> string list \<Rightarrow> AttrMap \<Rightarrow> string list \<times> string list" where
  "attrKeysAndValues asString order m = attrKeysAndValues_loop asString m order ([], [])"

definition newSpanIndex ::
  "(AttrValue \<Rightarrow> string) \<Rightarrow> string list \<Rightarrow> Span \<Rightarrow> SpanIndex \<Rightarrow> SpanIndex" where
  "newSpanIndex asString order span index =
     index\<lparr>ixSpan := span,
           Count := 1,
           AttrKeys := fst (attrKeysAndValues asString order (Attrs span)),
           AttrValues := snd (attrKeysAndValues asString order (Attrs span)),
           ServiceName := AttrMap_Text (Attrs span) xattr_ServiceName,
           HostName := AttrMap_Text (Attrs span) xattr_HostName,
           EventCount := of_nat (length (Events span)),
           EventErrorCount := 0,
           EventLogCount := 0\<rparr>"

text \<open>
  The body of the loop of \<open>flushSpans\<close> for one item: the span and the index row start
  as zero values, the project id is set, then \<open>newSpan\<close> and \<open>newSpanIndex\<close> fill them.
\<close>

definition flushSpans_span ::
  "(string \<Rightarrow> u64) \<Rightarrow> (string \<Rightarrow> string) \<Rightarrow> (string \<Rightarrow> Token list) \<Rightarrow> otlpSpan \<Rightarrow> Span" where
  "flushSpans_span h up tk item = newSpan h up tk item (zeroSpan\<lparr>ProjectID := pID (project item)\<rparr>)"

definition flushSpans_index ::
  "(string \<Rightarrow> u64) \<Rightarrow> (string \<Rightarrow> string) \<Rightarrow> (string \<Rightarrow> Token list) \<Rightarrow> (AttrValue \<Rightarrow> string) \<Rightarrow>
   string list \<Rightarrow> otlpSpan \<Rightarrow> SpanIndex" where
  "flushSpans_index h up tk asString order item =
     newSpanIndex asString order (flushSpans_span h up tk item) zeroSpanIndex"

section \<open>The ingress handler\<close>

text \<open>
  The generated request types. \<open>rss.Resource.Attributes\<close> reads a field through the
  pointer \<open>rss.Resource\<close>, which panics when the message has no resource; the library is
  read through the getters \<open>GetName\<close> and \<open>GetVersion\<close>, which give the empty string for
  a nil library.
\<close>

record Resource =
  rAttributes :: KeyValues

record InstrumentationLibrary =
  libName :: string
  libVersion :: string

record InstrumentationLibrarySpans =
  InstrumentationLibrary :: "InstrumentationLibrary option"
  Spans :: "tracepb_Span list"

record ResourceSpans =
  Resource :: "Resource option"
  InstrumentationLibrarySpans :: "InstrumentationLibrarySpans list"

record ExportTraceServiceRequest =
  reqResourceSpans :: "ResourceSpans list"

definition GetName :: "InstrumentationLibrary option \<Rightarrow> string" where
  "GetName lib = (case lib of None \<Rightarrow> [] | Some l \<Rightarrow> libName l)"

definition GetVersion :: "InstrumentationLibrary option \<Rightarrow> string" where
  "GetVersion lib = (case lib of None \<Rightarrow> [] | Some l \<Rightarrow> libVersion l)"

text \<open>
  Errors. \<open>status.Error(c, msg)\<close> builds an error that carries the gRPC code \<open>c\<close>;
  \<open>errors.New\<close> and \<open>fmt.Errorf\<close> build plain errors. \<open>status_Code\<close> is \<open>status.Code\<close> of
  the gRPC library: the code of a status error, and \<open>Unknown\<close> for any other error,
  which is also the code the server reports to the client for a plain error.
\<close>

datatype grpc_Code = OK | Canceled | Unknown | InvalidArgument | DeadlineExceeded | NotFound

datatype error = StatusError grpc_Code string | PlainError string

fun status_Code :: "error \<Rightarrow> grpc_Code" where
  "status_Code (StatusError c msg) = c"
| "status_Code (PlainError msg) = Unknown"

fun error_Message :: "error \<Rightarrow> string" where
  "error_Message (StatusError c msg) = msg"
| "error_Message (PlainError msg) = msg"

text \<open>\<open>ctx.Err()\<close> is nil (\<open>None\<close>) or one of the two errors of package \<open>context\<close>.\<close>

datatype context_error = context_Canceled | context_DeadlineExceeded

text \<open>
  \<open>metadata.MD\<close> maps a header name to its values; \<open>Get\<close> gives the values of a header,
  none when the header is absent.
\<close>

type_synonym MD = "string \<Rightarrow> string list option"

definition MD_Get :: "MD \<Rightarrow> string \<Rightarrow> string list" where
  "MD_Get md k = (case md k of None \<Rightarrow> [] | Some vs \<Rightarrow> vs)"

text \<open>
  \<open>org.ParseDSN\<close> is not under \<open>src/\<close>; it is the parameter \<open>ParseDSN\<close>, and of the DSN
  it returns only the token is read. \<open>quote\<close> is the verb \<open>%q\<close> of \<open>fmt\<close>
  (\<open>strconv.Quote\<close>), a parameter as well.
\<close>

record DSN =
  dsnToken :: string

definition findProjectByDSN ::
  "(string \<Rightarrow> error + DSN) \<Rightarrow> (string \<Rightarrow> string) \<Rightarrow> Project list \<Rightarrow> string \<Rightarrow> error + Project" where
  "findProjectByDSN ParseDSN quote projects dsnStr =
     (if dsnStr = [] then Inl (PlainError (''uptrace-dsn header can'' @ [CHR 0x27] @ ''t be empty''))
      else
        (case ParseDSN dsnStr of
           Inl err \<Rightarrow> Inl err
         | Inr dsn \<Rightarrow>
             if dsnToken dsn = [] then
               Inl (PlainError (''dsn '' @ quote dsnStr @ '' does not contain a token''))
             else
               (case find (\<lambda>p. pToken p = dsnToken dsn) projects of
                  Some p \<Rightarrow> Inr p
                | None \<Rightarrow>
                    Inl (PlainError (''project with token '' @ quote (dsnToken dsn) @
                                     '' not found'')))))"

text \<open>
  The field \<open>resource\<close> of an \<open>otlpSpan\<close> is a Go map, that is, a reference: \<open>process\<close>
  makes one map per \<open>ResourceSpans\<close>, updates it in place for each library, and every
  item of that \<open>ResourceSpans\<close> holds the same map. So an item on the channel is modelled
  with the address of its map, and the maps live in a store. \<open>otlpSpan_load\<close> is the item
  with the content its map has in a given store: what \<open>newSpan\<close> reads when it runs.
\<close>

record otlpSpan_ref =
  refProject :: Project
  refSpan :: tracepb_Span
  refResource :: nat

text \<open>
  What a handler has done to the channel and the heap: the items sent, oldest first, the
  content of the resource maps by address, and the number of maps made so far (the
  next free address).
\<close>

record sends =
  sent :: "otlpSpan_ref list"
  resourceMaps :: "nat \<Rightarrow> AttrMap"
  mapCount :: nat

definition no_sends :: sends where
  "no_sends = \<lparr>sent = [], resourceMaps = (\<lambda>a. Map.empty), mapCount = 0\<rparr>"

definition otlpSpan_load :: "(nat \<Rightarrow> AttrMap) \<Rightarrow> otlpSpan_ref \<Rightarrow> otlpSpan" where
  "otlpSpan_load store item =
     \<lparr>project = refProject item, pbSpan = refSpan item, resource = store (refResource item)\<rparr>"

text \<open>
  \<open>process\<close> sends one item per span on the channel. \<open>process_libs\<close> is the loop over the
  libraries of one \<open>ResourceSpans\<close>, whose map is at the address \<open>a\<close>: it writes the
  library name (and the version when it is not empty) into that map, then sends the
  spans of the library. The send blocks while the channel is full; the model is of a
  handler whose sends all complete.
\<close>

fun process_libs ::
  "Project \<Rightarrow> nat \<Rightarrow> InstrumentationLibrarySpans list \<Rightarrow> sends \<Rightarrow> sends" where
  "process_libs proj a [] st = st"
| "process_libs proj a (ils # rest) st =
     (let lib = InstrumentationLibrary ils;
          resource1 = (resourceMaps st a)(xattr_OtelLibraryName \<mapsto> AString (GetName lib));
          resource2 = (if GetVersion lib \<noteq> []
                       then resource1(xattr_OtelLibraryVersion \<mapsto> AString (GetVersion lib))
                       else resource1)
      in process_libs proj a rest
           (st\<lparr>resourceMaps := (resourceMaps st)(a := resource2),
                sent := sent st @
                  map (\<lambda>span. \<lparr>refProject = proj, refSpan = span, refResource = a\<rparr>) (Spans ils)\<rparr>))"

text \<open>
  The loop over the \<open>ResourceSpans\<close>: each gets a new map made by \<open>otlpAttrs\<close> from the
  attributes of its resource. A \<open>ResourceSpans\<close> without a resource makes the handler
  panic; what was sent before stays sent.
\<close>

datatype process_result = Returned sends | Panicked sends

fun process :: "Project \<Rightarrow> ResourceSpans list \<Rightarrow> sends \<Rightarrow> process_result" where
  "process proj [] st = Returned st"
| "process proj (rss # rest) st =
     (case Resource rss of
        None \<Rightarrow> Panicked st
      | Some r \<Rightarrow>
          process proj rest
            (process_libs proj (mapCount st) (InstrumentationLibrarySpans rss)
               (st\<lparr>resourceMaps := (resourceMaps st)(mapCount st := otlpAttrs (rAttributes r)),
                    mapCount := Suc (mapCount st)\<rparr>)))"

text \<open>
  The outcome of \<open>Export\<close>: the empty response, an error, or a panic; the response and the
  panic come with what the handler sent on the channel.
\<close>

datatype Export_result = Response sends | Failure error | Panic sends

definition Export ::
  "(string \<Rightarrow> error + DSN) \<Rightarrow> (string \<Rightarrow> string) \<Rightarrow> Project list \<Rightarrow>
   context_error option \<Rightarrow> MD option \<Rightarrow> ExportTraceServiceRequest \<Rightarrow> Export_result" where
  "Export ParseDSN quote projects ctxErr incoming req =
     (if ctxErr = Some context_Canceled then
        Failure (StatusError Canceled ''Client cancelled, abandoning.'')
      else
        (case incoming of
           None \<Rightarrow> Failure (PlainError ''metadata is empty'')
         | Some md \<Rightarrow>
             if length (MD_Get md ''uptrace-dsn'') = 0 then
               Failure (PlainError ''uptrace-dsn header is required'')
             else
               (case findProjectByDSN ParseDSN quote projects (MD_Get md ''uptrace-dsn'' ! 0) of
                  Inl err \<Rightarrow> Failure err
                | Inr proj \<Rightarrow>
                    (case process proj (reqResourceSpans req) no_sends of
                       Panicked items \<Rightarrow> Panic items
                     | Returned items \<Rightarrow> Response items))))"

section \<open>The batcher\<close>

text \<open>
  \<open>processLoop\<close> is one goroutine: a \<open>for\<close> loop around a \<open>select\<close> over the channel, the
  timer and the done signal. An event is the case the \<open>select\<close> takes in one iteration,
  and a run of the loop is a list of events. The state is the buffer \<open>spans\<close> and the
  batches handed to \<open>flushSpans\<close> so far, oldest first. \<open>flushSpans\<close> takes the batch and
  builds and inserts the rows in a goroutine of its own; \<open>make\<close> then starts a fresh
  buffer, so a batch that was handed over is never appended to again.
\<close>

datatype 'a select_case = Recv 'a | TimerFired | DoneClosed

record 'a loop_state =
  spans :: "'a list"
  flushed :: "'a list list"

definition flushSpans :: "'a loop_state \<Rightarrow> 'a loop_state" where
  "flushSpans st = st\<lparr>flushed := flushed st @ [spans st]\<rparr>"

text \<open>The body of the \<open>for\<close> loop for an event other than the done signal.\<close>

fun processLoop_select :: "'a select_case \<Rightarrow> 'a loop_state \<Rightarrow> 'a loop_state" where
  "processLoop_select (Recv span) st = st\<lparr>spans := spans st @ [span]\<rparr>"
| "processLoop_select TimerFired st =
     (if length (spans st) > 0 then (flushSpans st)\<lparr>spans := []\<rparr> else st)"
| "processLoop_select DoneClosed st = st"

definition processLoop_body :: "nat \<Rightarrow> 'a select_case \<Rightarrow> 'a loop_state \<Rightarrow> 'a loop_state" where
  "processLoop_body batchSize ev st =
     (let st1 = processLoop_select ev st
      in if length (spans st1) = batchSize then (flushSpans st1)\<lparr>spans := []\<rparr> else st1)"

text \<open>
  The loop from a state on: on the done signal it leaves the loop and flushes what the
  buffer holds; for any other event it runs the body and goes on. When the events end
  without the done signal the loop is still waiting in \<open>select\<close> and has not returned:
  the result is \<open>None\<close>.
\<close>

fun processLoop_from :: "nat \<Rightarrow> 'a select_case list \<Rightarrow> 'a loop_state \<Rightarrow> 'a loop_state option" where
  "processLoop_from batchSize [] st = None"
| "processLoop_from batchSize (DoneClosed # evs) st =
     Some (if length (spans st) > 0 then flushSpans st else st)"
| "processLoop_from batchSize (ev # evs) st =
     processLoop_from batchSize evs (processLoop_body batchSize ev st)"

definition processLoop :: "nat \<Rightarrow> 'a select_case list \<Rightarrow> 'a loop_state option" where
  "processLoop batchSize evs = processLoop_from batchSize evs \<lparr>spans = [], flushed = []\<rparr>"

section \<open>XXH64\<close>

text \<open>
  The 64-bit xxHash with seed 0, which \<open>Sum64\<close> of the module
  \<open>github.com/cespare/xxhash/v2\<close> computes over the bytes written to a digest. It is not
  code of this repository; the definition follows the published algorithm and is
  checked below against published digests. Bytes are read little-endian, in stripes
  of 32 bytes, then words of 8 and 4 bytes, then single bytes.
\<close>

definition prime64_1 :: u64 where "prime64_1 = 11400714785074694791"
definition prime64_2 :: u64 where "prime64_2 = 14029467366897019727"
definition prime64_3 :: u64 where "prime64_3 = 1609587929392839161"
definition prime64_4 :: u64 where "prime64_4 = 9650029242287828579"
definition prime64_5 :: u64 where "prime64_5 = 2870177450012600261"

definition rol64 :: "nat \<Rightarrow> u64 \<Rightarrow> u64" where
  "rol64 r x = push_bit r x OR drop_bit (64 - r) x"

definition round64 :: "u64 \<Rightarrow> u64 \<Rightarrow> u64" where
  "round64 acc inp = rol64 31 (acc + inp * prime64_2) * prime64_1"

definition mergeRound64 :: "u64 \<Rightarrow> u64 \<Rightarrow> u64" where
  "mergeRound64 acc val = (acc XOR round64 0 val) * prime64_1 + prime64_4"

fun le_bytes :: "string \<Rightarrow> u64" where
  "le_bytes [] = 0"
| "le_bytes (c # cs) = of_char c + 256 * le_bytes cs"

fun xxh_stripes ::
  "u64 \<times> u64 \<times> u64 \<times> u64 \<Rightarrow> string \<Rightarrow> (u64 \<times> u64 \<times> u64 \<times> u64) \<times> string" where
  "xxh_stripes (v1, v2, v3, v4) bs =
     (if 32 \<le> length bs then
        xxh_stripes
          (round64 v1 (le_bytes (take 8 bs)),
           round64 v2 (le_bytes (take 8 (drop 8 bs))),
           round64 v3 (le_bytes (take 8 (drop 16 bs))),
           round64 v4 (le_bytes (take 8 (drop 24 bs))))
          (drop 32 bs)
      else ((v1, v2, v3, v4), bs))"

fun xxh_tail :: "u64 \<Rightarrow> string \<Rightarrow> u64" where
  "xxh_tail acc bs =
     (if 8 \<le> length bs then
        xxh_tail (rol64 27 (acc XOR round64 0 (le_bytes (take 8 bs))) * prime64_1 + prime64_4)
          (drop 8 bs)
      else if 4 \<le> length bs then
        xxh_tail (rol64 23 (acc XOR le_bytes (take 4 bs) * prime64_1) * prime64_2 + prime64_3)
          (drop 4 bs)
      else
        (case bs of
           [] \<Rightarrow> acc
         | c # cs \<Rightarrow> xxh_tail (rol64 11 (acc XOR of_char c * prime64_5) * prime64_1) cs))"

definition xxh_avalanche :: "u64 \<Rightarrow> u64" where
  "xxh_avalanche h0 =
     (let h1 = (h0 XOR drop_bit 33 h0) * prime64_2;
          h2 = (h1 XOR drop_bit 29 h1) * prime64_3
      in h2 XOR drop_bit 32 h2)"

definition XXH64 :: "string \<Rightarrow> u64" where
  "XXH64 bs =
     (let acc =
        (if 32 \<le> length bs then
           (case xxh_stripes (prime64_1 + prime64_2, prime64_2, 0, 0 - prime64_1) bs of
              ((v1, v2, v3, v4), rest) \<Rightarrow>
                mergeRound64 (mergeRound64 (mergeRound64 (mergeRound64
                  (rol64 1 v1 + rol64 7 v2 + rol64 12 v3 + rol64 18 v4) v1) v2) v3) v4)
         else prime64_5)
      in xxh_avalanche
           (xxh_tail (acc + of_nat (length bs)) (drop (length bs - length bs mod 32) bs)))"

section \<open>The claims' words, and inputs for evaluation\<close>

text \<open>
  The keyword tokens of a statement, in the words of the spec: the identifier tokens
  whose text matches the keyword set. \<open>stmtKeywords\<close> is their sequence for the text of
  a span's \<open>db.statement\<close>; a span without a statement (empty text) has none.
\<close>

definition keywordTokens :: "(string \<Rightarrow> string) \<Rightarrow> Token list \<Rightarrow> Token list" where
  "keywordTokens up toks = filter (\<lambda>t. Type t = IdentToken \<and> isSQLKeyword up (Text t)) toks"

definition stmtKeywords :: "(string \<Rightarrow> string) \<Rightarrow> (string \<Rightarrow> Token list) \<Rightarrow> string \<Rightarrow> Token list" where
  "stmtKeywords up tk stmt = (if stmt = [] then [] else keywordTokens up (tk stmt))"

text \<open>
  The db rule decides a span when the rpc and messaging rules do not match and
  \<open>db.system\<close> has text. \<open>dbExtras\<close> are the db-specific extras of the fingerprint:
  the text of \<open>db.sql.table\<close>, then the texts of the keyword tokens of \<open>db.statement\<close>.
\<close>

definition dbRule :: "AttrMap \<Rightarrow> bool" where
  "dbRule attrs =
     (AttrMap_Text attrs xattr_RPCSystem = [] \<and> AttrMap_Text attrs xattr_MessagingSystem = [] \<and>
      AttrMap_Text attrs xattr_DBSystem \<noteq> [])"

definition dbExtras :: "(string \<Rightarrow> string) \<Rightarrow> (string \<Rightarrow> Token list) \<Rightarrow> AttrMap \<Rightarrow> string" where
  "dbExtras up tk attrs =
     (if dbRule attrs then
        AttrMap_Text attrs xattr_DBSqlTable @
        concat (map Text (stmtKeywords up tk (AttrMap_Text attrs xattr_DBStatement)))
      else [])"

text \<open>
  Stand-ins for the parameters, used only to evaluate the model on concrete inputs:
  an upper-casing of the ASCII letters (\<open>strings.ToUpper\<close> on ASCII text), a tokenizer
  that splits a statement at spaces and takes a field of ASCII letters for an
  identifier, a rendering of attribute values, and the quoting of a token without
  special characters.
\<close>

definition ToUpper_ascii :: "string \<Rightarrow> string" where
  "ToUpper_ascii s =
     map (\<lambda>c. if 97 \<le> (of_char c :: nat) \<and> (of_char c :: nat) \<le> 122
               then char_of ((of_char c :: nat) - 32) else c) s"

fun split_fields :: "string \<Rightarrow> string \<Rightarrow> string list" where
  "split_fields cur [] = (if cur = [] then [] else [cur])"
| "split_fields cur (c # cs) =
     (if c = CHR '' '' then (if cur = [] then split_fields [] cs else cur # split_fields [] cs)
      else split_fields (cur @ [c]) cs)"

definition is_ascii_letter :: "char \<Rightarrow> bool" where
  "is_ascii_letter c =
     (65 \<le> (of_char c :: nat) \<and> (of_char c :: nat) \<le> 90 \<or>
      97 \<le> (of_char c :: nat) \<and> (of_char c :: nat) \<le> 122)"

definition fields_tokenizer :: "string \<Rightarrow> Token list" where
  "fields_tokenizer s =
     map (\<lambda>w. Token (if list_all is_ascii_letter w then IdentToken else OtherToken) w)
       (split_fields [] s)"

fun asString_plain :: "AttrValue \<Rightarrow> string" where
  "asString_plain (AString s) = s"
| "asString_plain (ABool b) = (if b then ''true'' else ''false'')"
| "asString_plain v = ''[]''"

definition quote_plain :: "string \<Rightarrow> string" where
  "quote_plain s = [CHR 0x22] @ s @ [CHR 0x22]"

definition ParseDSN_token :: "string \<Rightarrow> error + DSN" where
  "ParseDSN_token s = Inr \<lparr>dsnToken = takeWhile (\<lambda>c. c \<noteq> CHR ''@'') s\<rparr>"

text \<open>A client span named \<open>query\<close> that lasts 2000 ns, and items built around it.\<close>

definition wire0 :: tracepb_Span where
  "wire0 =
     \<lparr>TraceId = [], SpanId = [1, 0, 0, 0, 0, 0, 0, 0], ParentSpanId = [], wName = ''query'',
      wKind = SPAN_KIND_CLIENT, StartTimeUnixNano = 1000, EndTimeUnixNano = 3000,
      Attributes = Map.empty, wEvents = [], wLinks = [], wStatus = None\<rparr>"

definition project0 :: Project where
  "project0 = \<lparr>pID = 1, pName = ''uptrace'', pToken = ''secret''\<rparr>"

definition item0 :: "tracepb_Span \<Rightarrow> otlpSpan" where
  "item0 w = \<lparr>project = project0, pbSpan = w, resource = [''service.name'' \<mapsto> AString ''web'']\<rparr>"

definition event0 :: Span_Event where
  "event0 = \<lparr>eName = ''log'', eTimeUnixNano = 2000, eAttributes = Map.empty\<rparr>"

text \<open>
  \<open>itemA kvs\<close> is the client span with the span attributes \<open>kvs\<close>; \<open>itemS1 stmt\<close> is
  the PostgreSQL query span of the spec's scenario S1 with the statement \<open>stmt\<close>.
\<close>

definition itemA :: "KeyValues \<Rightarrow> otlpSpan" where
  "itemA kvs = item0 (wire0\<lparr>Attributes := kvs\<rparr>)"

definition itemS1 :: "string \<Rightarrow> otlpSpan" where
  "itemS1 stmt =
     item0 (wire0\<lparr>Attributes := [''db.system'' \<mapsto> AString ''postgresql'',
                                  ''db.sql.table'' \<mapsto> AString ''users'',
                                  ''db.statement'' \<mapsto> AString stmt]\<rparr>)"

text \<open>A request with one resource, one library and the span \<open>wire0\<close>.\<close>

definition rss0 :: ResourceSpans where
  "rss0 =
     \<lparr>Resource = Some \<lparr>rAttributes = [''service.name'' \<mapsto> AString ''web'']\<rparr>,
      InstrumentationLibrarySpans =
        [\<lparr>InstrumentationLibrary = Some \<lparr>libName = ''otelhttp'', libVersion = []\<rparr>,
          Spans = [wire0]\<rparr>]\<rparr>"

text \<open>A request with one resource and two libraries, each with one span.\<close>

definition rss2 :: ResourceSpans where
  "rss2 =
     \<lparr>Resource = Some \<lparr>rAttributes = [''service.name'' \<mapsto> AString ''web'']\<rparr>,
      InstrumentationLibrarySpans =
        [\<lparr>InstrumentationLibrary = Some \<lparr>libName = ''otelhttp'', libVersion = []\<rparr>,
          Spans = [wire0]\<rparr>,
         \<lparr>InstrumentationLibrary = Some \<lparr>libName = ''otelsql'', libVersion = []\<rparr>,
          Spans = [wire0\<lparr>wName := ''insert''\<rparr>]\<rparr>]\<rparr>"

section \<open>Known digests of XXH64\<close>

text \<open>
  The definition of \<open>XXH64\<close> reproduces published digests: of the empty input, of short
  inputs (the byte and word steps) and of an input longer than one stripe of 32 bytes.
\<close>

lemma XXH64_empty: "XXH64 [] = 0xEF46DB3751D8E999"
  by code_simp

lemma XXH64_a: "XXH64 ''a'' = 0xD24EC4F1A98C6E5B"
  by code_simp

lemma XXH64_abc: "XXH64 ''abc'' = 0x44BC2CF5AD770999"
  by code_simp

lemma XXH64_xxhash: "XXH64 ''xxhash'' = 0x32DD38952C4BC720"
  by code_simp

lemma XXH64_long: "XXH64 ''Nobody inspects the spammish repetition'' = 0xFBCEA83C8A378BF1"
  by code_simp

section \<open>What newSpan assigns\<close>

text \<open>
  \<open>assignSystemAndGroupID\<close> writes only \<open>System\<close> and \<open>Name\<close> of the span; the other
  fields of the built span are those \<open>newSpan\<close> assigned before the call.
\<close>

lemma assign_Duration: "Duration (fst (assignSystemAndGroupID up tk s d)) = Duration s"
  and assign_StatusCode: "StatusCode (fst (assignSystemAndGroupID up tk s d)) = StatusCode s"
  and assign_StatusMessage: "StatusMessage (fst (assignSystemAndGroupID up tk s d)) = StatusMessage s"
  and assign_Attrs: "Attrs (fst (assignSystemAndGroupID up tk s d)) = Attrs s"
  and assign_Events: "Events (fst (assignSystemAndGroupID up tk s d)) = Events s"
  and assign_Kind: "Kind (fst (assignSystemAndGroupID up tk s d)) = Kind s"
  and assign_ParentID: "ParentID (fst (assignSystemAndGroupID up tk s d)) = ParentID s"
  by (simp_all add: assignSystemAndGroupID_def Let_def)

lemma newSpan_Duration:
  "Duration (newSpan h up tk span out) =
     EndTimeUnixNano (pbSpan span) - StartTimeUnixNano (pbSpan span)"
  by (simp add: newSpan_def Let_def assign_Duration split: option.splits)

lemma newSpan_Events:
  "length (Events (newSpan h up tk span out)) = length (wEvents (pbSpan span))"
  by (simp add: newSpan_def Let_def assign_Events split: option.splits)

lemma newSpan_Attrs:
  "Attrs (newSpan h up tk span out) =
     otlpSetAttrs (Map.empty ++ resource span) (Attributes (pbSpan span))"
  by (simp add: newSpan_def Let_def assign_Attrs split: option.splits)

lemma newSpan_StatusCode:
  "StatusCode (newSpan h up tk span out) =
     (case wStatus (pbSpan span) of
        None \<Rightarrow> StatusCode out
      | Some st \<Rightarrow> otlpStatusCode (Code st))"
  by (simp add: newSpan_def Let_def assign_StatusCode split: option.splits)

lemma newSpan_StatusMessage:
  "StatusMessage (newSpan h up tk span out) =
     (case wStatus (pbSpan span) of None \<Rightarrow> StatusMessage out | Some st \<Rightarrow> Message st)"
  by (simp add: newSpan_def Let_def assign_StatusMessage split: option.splits)

text \<open>
  Reading a wrapped difference of two \<open>uint64\<close> as \<open>int64\<close> gives the true difference as
  long as that difference fits 64 signed bits.
\<close>

lemma sint_sub_in_range:
  fixes a b :: u64
  assumes "- (2 ^ 63) \<le> uint a - uint b" "uint a - uint b < 2 ^ 63"
  shows "sint (a - b) = uint a - uint b"
proof -
  have "uint (a - b) = take_bit 64 (uint a - uint b)"
    by (simp add: uint_word_ariths take_bit_eq_mod)
  then have "sint (a - b) = signed_take_bit 63 (take_bit 64 (uint a - uint b))"
    by (simp add: sint_uint)
  also have "\<dots> = signed_take_bit 63 (uint a - uint b)"
    by (simp add: signed_take_bit_take_bit)
  also have "\<dots> = uint a - uint b"
    using assms by (simp add: signed_take_bit_int_eq_self)
  finally show ?thesis .
qed

section \<open>Duration\<close>

text \<open>
  Claim C3 says that \<open>Duration\<close> is \<open>EndTimeUnixNano - StartTimeUnixNano\<close>, saturating at 0
  when the end is not after the start, so never negative. \<open>newSpan\<close> has no such guard:
  it subtracts the two \<open>uint64\<close> with wrap-around and keeps the 64 bits as the \<open>int64\<close> of
  \<open>time.Duration\<close>. For a span that starts at 5 and ends at 3 the duration is -2.
\<close>

theorem duration_negative_counterexample:
  "sint (Duration (newSpan XXH64 ToUpper_ascii fields_tokenizer
      (item0 (wire0\<lparr>StartTimeUnixNano := 5, EndTimeUnixNano := 3\<rparr>)) zeroSpan)) = - 2"
  by (simp add: newSpan_Duration item0_def wire0_def)

text \<open>
  Claim C3, amended: for every wire span, \<open>Duration\<close> is the wrapping 64-bit difference
  \<open>EndTimeUnixNano - StartTimeUnixNano\<close> read as \<open>int64\<close>. Whenever the true difference
  of the two timestamps lies in \<open>[-2^63, 2^63)\<close> the duration is that difference: the
  elapsed time when the end is not before the start, and a negative number when the end
  is before the start.
\<close>

theorem duration_is_wrapping_difference:
  "Duration (newSpan h up tk span out) =
     EndTimeUnixNano (pbSpan span) - StartTimeUnixNano (pbSpan span) \<and>
   (- (2 ^ 63) \<le> uint (EndTimeUnixNano (pbSpan span)) - uint (StartTimeUnixNano (pbSpan span)) \<and>
    uint (EndTimeUnixNano (pbSpan span)) - uint (StartTimeUnixNano (pbSpan span)) < 2 ^ 63 \<longrightarrow>
    sint (Duration (newSpan h up tk span out)) =
      uint (EndTimeUnixNano (pbSpan span)) - uint (StartTimeUnixNano (pbSpan span)))"
  by (simp add: newSpan_Duration sint_sub_in_range)

theorem duration_is_wrapping_difference_witness:
  "sint (Duration (newSpan XXH64 ToUpper_ascii fields_tokenizer (item0 wire0) zeroSpan)) = 2000 \<and>
   sint (Duration (newSpan XXH64 ToUpper_ascii fields_tokenizer
      (item0 (wire0\<lparr>StartTimeUnixNano := 10, EndTimeUnixNano := 4\<rparr>)) zeroSpan)) = - 6"
  using duration_is_wrapping_difference [where span = "item0 wire0" and h = XXH64
      and up = ToUpper_ascii and tk = fields_tokenizer and out = zeroSpan]
    duration_is_wrapping_difference [where h = XXH64
      and up = ToUpper_ascii and tk = fields_tokenizer and out = zeroSpan
      and span = "item0 (wire0\<lparr>StartTimeUnixNano := 10, EndTimeUnixNano := 4\<rparr>)"]
  by (simp add: item0_def wire0_def)

section \<open>Status\<close>

text \<open>
  Claim C10: for every wire span whose \<open>Status\<close> is absent (nil), the built span's
  \<open>StatusCode\<close> is the empty string, not \<open>"unset"\<close>, and its \<open>StatusMessage\<close> is the empty
  string; the built code is \<open>"unset"\<close> exactly when a \<open>Status\<close> is present with code
  unset. The built span is the one \<open>flushSpans\<close> makes from the zero value.
\<close>

theorem absent_status_leaves_code_empty:
  "(wStatus (pbSpan item) = None \<longrightarrow>
      StatusCode (flushSpans_span h up tk item) = [] \<and>
      StatusMessage (flushSpans_span h up tk item) = []) \<and>
   (StatusCode (flushSpans_span h up tk item) = ''unset'' \<longleftrightarrow>
      (\<exists>st. wStatus (pbSpan item) = Some st \<and> Code st = STATUS_CODE_UNSET))"
proof -
  have "otlpStatusCode c = ''unset'' \<longleftrightarrow> c = STATUS_CODE_UNSET" for c
    by (cases c) simp_all
  then show ?thesis
    by (auto simp add: flushSpans_span_def newSpan_StatusCode newSpan_StatusMessage zeroSpan_def
        split: option.splits)
qed

theorem absent_status_leaves_code_empty_witness:
  "wStatus (pbSpan (item0 wire0)) = None \<and>
   StatusCode (flushSpans_span XXH64 ToUpper_ascii fields_tokenizer (item0 wire0)) = [] \<and>
   StatusMessage (flushSpans_span XXH64 ToUpper_ascii fields_tokenizer (item0 wire0)) = [] \<and>
   StatusCode (flushSpans_span XXH64 ToUpper_ascii fields_tokenizer
     (item0 (wire0\<lparr>wStatus := Some \<lparr>Code = STATUS_CODE_UNSET, Message = []\<rparr>\<rparr>))) = ''unset''"
  using absent_status_leaves_code_empty [where item = "item0 wire0" and h = XXH64
      and up = ToUpper_ascii and tk = fields_tokenizer]
    absent_status_leaves_code_empty [where h = XXH64 and up = ToUpper_ascii and tk = fields_tokenizer
      and item = "item0 (wire0\<lparr>wStatus := Some \<lparr>Code = STATUS_CODE_UNSET, Message = []\<rparr>\<rparr>)"]
  by (simp add: item0_def wire0_def)

section \<open>Merging resource and span attributes\<close>



section \<open>The index row\<close>

text \<open>The truncation never returns more than \<open>n\<close> bytes.\<close>

lemma utf8_boundary_le: "utf8_boundary s n \<le> n"
  by (induction n) auto

lemma length_truncate_str: "length (truncate_str s n) \<le> n"
  using utf8_boundary_le [of s n] by (simp add: truncate_str_def)

lemma attrKeysAndValues_loop_keys:
  "set ks \<subseteq> dom m \<Longrightarrow> fst (attrKeysAndValues_loop asString m ks (keys, vals)) = keys @ ks"
  by (induction ks arbitrary: keys vals) (auto split: option.splits)

lemma attrKeysAndValues_loop_length:
  "set ks \<subseteq> dom m \<Longrightarrow>
   length (snd (attrKeysAndValues_loop asString m ks (keys, vals))) = length vals + length ks"
  by (induction ks arbitrary: keys vals) (auto split: option.splits)

lemma attrKeysAndValues_loop_bound:
  "list_all (\<lambda>v. length v \<le> 200) vals \<Longrightarrow>
   list_all (\<lambda>v. length v \<le> 200) (snd (attrKeysAndValues_loop asString m ks (keys, vals)))"
proof (induction ks arbitrary: keys vals)
  case Nil
  then show ?case by simp
next
  case (Cons k ks)
  show ?case
  proof (cases "m k")
    case None
    then show ?thesis using Cons by simp
  next
    case (Some v)
    have "list_all (\<lambda>v. length v \<le> 200) (vals @ [truncate_str (asString v) 200])"
      using Cons.prems by (simp add: length_truncate_str)
    then show ?thesis using Some Cons.IH by simp
  qed
qed

text \<open>
  Claim C7: for every built \<open>SpanIndex\<close>, \<open>AttrKeys\<close> and \<open>AttrValues\<close> have equal length,
  with one entry per key of the merged \<open>Attrs\<close> map, and every entry of \<open>AttrValues\<close> has
  at most 200 bytes. It holds for every order in which \<open>range\<close> visits the keys of the
  map and for every rendering \<open>asString\<close>.
\<close>

theorem attr_arrays_parallel_and_bounded:
  assumes "distinct order" and "set order = dom (Attrs span)"
  shows "length (AttrKeys (newSpanIndex asString order span index)) =
           length (AttrValues (newSpanIndex asString order span index)) \<and>
         length (AttrKeys (newSpanIndex asString order span index)) = card (dom (Attrs span)) \<and>
         set (AttrKeys (newSpanIndex asString order span index)) = dom (Attrs span) \<and>
         (\<forall>v \<in> set (AttrValues (newSpanIndex asString order span index)). length v \<le> 200)"
proof -
  have sub: "set order \<subseteq> dom (Attrs span)"
    using assms(2) by simp
  have keys: "AttrKeys (newSpanIndex asString order span index) = order"
    using attrKeysAndValues_loop_keys [OF sub, of asString "[]" "[]"]
    by (simp add: newSpanIndex_def attrKeysAndValues_def)
  have len: "length (AttrValues (newSpanIndex asString order span index)) = length order"
    using attrKeysAndValues_loop_length [OF sub, of asString "[]" "[]"]
    by (simp add: newSpanIndex_def attrKeysAndValues_def)
  have card: "card (dom (Attrs span)) = length order"
    using assms distinct_card [of order] by simp
  have "list_all (\<lambda>v. length v \<le> 200) (AttrValues (newSpanIndex asString order span index))"
    using attrKeysAndValues_loop_bound [of "[]" asString "Attrs span" order "[]"]
    by (simp add: newSpanIndex_def attrKeysAndValues_def)
  then have bound: "\<forall>v \<in> set (AttrValues (newSpanIndex asString order span index)). length v \<le> 200"
    by (simp add: list_all_iff)
  show ?thesis using keys len card bound assms(2) by simp
qed

theorem attr_arrays_parallel_and_bounded_witness:
  "length (AttrKeys (newSpanIndex asString_plain [''note'', ''host.name'']
      (zeroSpan\<lparr>Attrs := [''host.name'' \<mapsto> AString ''h1'',
                          ''note'' \<mapsto> AString (replicate 300 CHR ''a'')]\<rparr>) zeroSpanIndex)) = 
   length (AttrValues (newSpanIndex asString_plain [''note'', ''host.name'']
      (zeroSpan\<lparr>Attrs := [''host.name'' \<mapsto> AString ''h1'',
                          ''note'' \<mapsto> AString (replicate 300 CHR ''a'')]\<rparr>) zeroSpanIndex)) \<and>
   set (AttrKeys (newSpanIndex asString_plain [''note'', ''host.name'']
      (zeroSpan\<lparr>Attrs := [''host.name'' \<mapsto> AString ''h1'',
                          ''note'' \<mapsto> AString (replicate 300 CHR ''a'')]\<rparr>) zeroSpanIndex)) =
     {''note'', ''host.name''} \<and>
   list_all (\<lambda>v. length v \<le> 200)
     (AttrValues (newSpanIndex asString_plain [''note'', ''host.name'']
      (zeroSpan\<lparr>Attrs := [''host.name'' \<mapsto> AString ''h1'',
                          ''note'' \<mapsto> AString (replicate 300 CHR ''a'')]\<rparr>) zeroSpanIndex))"
proof -
  have d: "distinct [''note'', ''host.name'']" by simp
  have s: "set [''note'', ''host.name''] =
      dom (Attrs (zeroSpan\<lparr>Attrs := [''host.name'' \<mapsto> AString ''h1'',
                          ''note'' \<mapsto> AString (replicate 300 CHR ''a'')]\<rparr>))"
    by auto
  show ?thesis
    using attr_arrays_parallel_and_bounded [OF d s, of asString_plain zeroSpanIndex] s
    by (simp add: list_all_iff)
qed

text \<open>A value of 300 bytes is cut to 200; a short one is kept.\<close>

lemma attr_values_example:
  "AttrValues (newSpanIndex asString_plain [''note'', ''host.name'']
      (zeroSpan\<lparr>Attrs := [''host.name'' \<mapsto> AString ''h1'',
                          ''note'' \<mapsto> AString (replicate 300 CHR ''a'')]\<rparr>) zeroSpanIndex)
  = [replicate 200 CHR ''a'', ''h1'']"
  by code_simp

text \<open>
  Claim C8 says that \<open>EventCount\<close> is \<open>min(len(Events), 255)\<close>, saturating at 255 rather
  than wrapping. \<open>newSpanIndex\<close> converts the length with \<open>uint8(...)\<close>, which keeps the
  low 8 bits: a span with 256 events gets \<open>EventCount\<close> 0, where the claim says 255.
\<close>

theorem event_count_wraps_counterexample:
  "unat (EventCount (flushSpans_index XXH64 ToUpper_ascii fields_tokenizer asString_plain [''service.name'']
      (item0 (wire0\<lparr>wEvents := replicate 256 event0\<rparr>)))) = 0 \<and>
   min (length (wEvents (pbSpan (item0 (wire0\<lparr>wEvents := replicate 256 event0\<rparr>))))) 255 = 255"
  by (simp add: flushSpans_index_def flushSpans_span_def newSpanIndex_def newSpan_Events item0_def wire0_def)

text \<open>
  Claim C8, amended: for every built \<open>SpanIndex\<close>, \<open>EventCount\<close> is the number of events
  modulo 256, which is the number of events itself when there are at most 255; and
  \<open>EventErrorCount\<close> and \<open>EventLogCount\<close> are 0.
\<close>

theorem event_count_wraps:
  "unat (EventCount (flushSpans_index h up tk asString order item)) =
     length (wEvents (pbSpan item)) mod 256 \<and>
   (length (wEvents (pbSpan item)) \<le> 255 \<longrightarrow>
      unat (EventCount (flushSpans_index h up tk asString order item)) =
        length (wEvents (pbSpan item))) \<and>
   EventErrorCount (flushSpans_index h up tk asString order item) = 0 \<and>
   EventLogCount (flushSpans_index h up tk asString order item) = 0"
  by (simp add: flushSpans_index_def flushSpans_span_def newSpanIndex_def newSpan_Events unat_of_nat)

theorem event_count_wraps_witness:
  "unat (EventCount (flushSpans_index XXH64 ToUpper_ascii fields_tokenizer asString_plain [''service.name'']
      (item0 (wire0\<lparr>wEvents := [event0, event0, event0]\<rparr>)))) = 3"
  using event_count_wraps [where h = XXH64 and up = ToUpper_ascii and tk = fields_tokenizer
      and asString = asString_plain and order = "[''service.name'']"
      and item = "item0 (wire0\<lparr>wEvents := [event0, event0, event0]\<rparr>)"]
  by (simp add: item0_def wire0_def)

section \<open>The fingerprint\<close>

text \<open>
  What \<open>assignSystemAndGroupID\<close> decides, rule by rule, and what it writes to the digest:
  the \<open>System\<close> string and, under the db rule, the table text and the texts of the keyword
  tokens. The name of the span is written to the digest by \<open>newSpan\<close> before the call.
\<close>

lemma assign_System:
  "System (fst (assignSystemAndGroupID up tk s d)) =
     (if AttrMap_Text (Attrs s) xattr_RPCSystem \<noteq> [] then ''rpc:'' @ AttrMap_ServiceName (Attrs s)
      else if AttrMap_Text (Attrs s) xattr_MessagingSystem \<noteq> [] then
        ''messaging:'' @ AttrMap_Text (Attrs s) xattr_MessagingSystem
      else if AttrMap_Text (Attrs s) xattr_DBSystem \<noteq> [] then
        ''db:'' @ AttrMap_Text (Attrs s) xattr_DBSystem
      else if AttrMap_Has (Attrs s) xattr_HTTPRoute \<or> AttrMap_Has (Attrs s) xattr_HTTPTarget then
        ''http:'' @ AttrMap_ServiceName (Attrs s)
      else if ParentID s = 0 \<or> Kind s \<noteq> ''internal'' then
        ''service:'' @ AttrMap_ServiceName (Attrs s)
      else ''internal'')"
  by (simp add: assignSystemAndGroupID_def Let_def rpcSpanType_def messagingSpanType_def
      dbSpanType_def httpSpanType_def serviceSpanType_def internalSpanType_def internalSpanKind_def)

lemma assign_Name:
  "Name (fst (assignSystemAndGroupID up tk s d)) =
     (if dbRule (Attrs s) \<and> AttrMap_Text (Attrs s) xattr_DBStatement \<noteq> []
      then AttrMap_Text (Attrs s) xattr_DBStatement else Name s)"
  by (simp add: assignSystemAndGroupID_def Let_def dbRule_def)

lemma hashDBStmt_loop_keywords:
  "hashDBStmt_loop up d toks = d @ concat (map Text (keywordTokens up toks))"
  by (induction toks arbitrary: d) (simp_all add: keywordTokens_def WriteString_def)

lemma assign_digest:
  "snd (assignSystemAndGroupID up tk s d) =
     d @ System (fst (assignSystemAndGroupID up tk s d)) @ dbExtras up tk (Attrs s)"
  by (simp add: assignSystemAndGroupID_def Let_def dbRule_def dbExtras_def WriteString_def
      hashDBStmt_def hashDBStmt_loop_keywords stmtKeywords_def)

lemma newSpan_Kind: "Kind (newSpan h up tk span out) = otlpSpanKind (wKind (pbSpan span))"
  by (simp add: newSpan_def Let_def assign_Kind split: option.splits)

lemma newSpan_ParentID: "ParentID (newSpan h up tk span out) = otlpSpanID (ParentSpanId (pbSpan span))"
  by (simp add: newSpan_def Let_def assign_ParentID split: option.splits)

lemma newSpan_System:
  "System (newSpan h up tk span out) =
     (if AttrMap_Text (Attrs (newSpan h up tk span out)) xattr_RPCSystem \<noteq> [] then
        ''rpc:'' @ AttrMap_ServiceName (Attrs (newSpan h up tk span out))
      else if AttrMap_Text (Attrs (newSpan h up tk span out)) xattr_MessagingSystem \<noteq> [] then
        ''messaging:'' @ AttrMap_Text (Attrs (newSpan h up tk span out)) xattr_MessagingSystem
      else if AttrMap_Text (Attrs (newSpan h up tk span out)) xattr_DBSystem \<noteq> [] then
        ''db:'' @ AttrMap_Text (Attrs (newSpan h up tk span out)) xattr_DBSystem
      else if AttrMap_Has (Attrs (newSpan h up tk span out)) xattr_HTTPRoute \<or>
              AttrMap_Has (Attrs (newSpan h up tk span out)) xattr_HTTPTarget then
        ''http:'' @ AttrMap_ServiceName (Attrs (newSpan h up tk span out))
      else if ParentID (newSpan h up tk span out) = 0 \<or>
              Kind (newSpan h up tk span out) \<noteq> ''internal'' then
        ''service:'' @ AttrMap_ServiceName (Attrs (newSpan h up tk span out))
      else ''internal'')"
  unfolding newSpan_Attrs newSpan_Kind newSpan_ParentID
  by (simp add: newSpan_def Let_def assign_System split: option.splits)

lemma newSpan_Name:
  "Name (newSpan h up tk span out) =
     (if dbRule (Attrs (newSpan h up tk span out)) \<and>
         AttrMap_Text (Attrs (newSpan h up tk span out)) xattr_DBStatement \<noteq> []
      then AttrMap_Text (Attrs (newSpan h up tk span out)) xattr_DBStatement
      else wName (pbSpan span))"
  unfolding newSpan_Attrs
  by (simp add: newSpan_def Let_def assign_Name split: option.splits)

lemma newSpan_fingerprint:
  "GroupID (newSpan h up tk span out) =
     h (Kind (newSpan h up tk span out) @ wName (pbSpan span) @
        System (newSpan h up tk span out) @
        dbExtras up tk (Attrs (newSpan h up tk span out)))"
  unfolding newSpan_Attrs newSpan_Kind
  by (simp add: newSpan_def Let_def assign_digest xxhash_New_def WriteString_def split: option.splits)


text \<open>The built span of scenario S1 and the keyword tokens of its statements.\<close>

lemma S1_Attrs:
  "Attrs (newSpan h up tk (itemS1 stmt) out) =
     [''service.name'' \<mapsto> AString ''web'', ''db.system'' \<mapsto> AString ''postgresql'',
      ''db.sql.table'' \<mapsto> AString ''users'', ''db.statement'' \<mapsto> AString stmt]"
  by (simp add: newSpan_Attrs itemS1_def item0_def wire0_def otlpSetAttrs_def)

lemma S1_tokens:
  "stmtKeywords ToUpper_ascii fields_tokenizer ''SELECT * FROM users WHERE id = 1'' =
     [Token IdentToken ''SELECT'', Token IdentToken ''FROM'', Token IdentToken ''WHERE'']"
  "stmtKeywords ToUpper_ascii fields_tokenizer ''SELECT * FROM users WHERE id = 42'' =
     [Token IdentToken ''SELECT'', Token IdentToken ''FROM'', Token IdentToken ''WHERE'']"
  by code_simp+

lemma S1_built:
  "Kind (newSpan h up tk (itemS1 stmt) out) = ''client''"
  "System (newSpan h up tk (itemS1 stmt) out) = ''db:postgresql''"
  "stmt \<noteq> [] \<Longrightarrow> Name (newSpan h up tk (itemS1 stmt) out) = stmt"
  "dbRule (Attrs (newSpan h up tk (itemS1 stmt) out))"
  "AttrMap_Text (Attrs (newSpan h up tk (itemS1 stmt) out)) xattr_DBSqlTable = ''users''"
  "AttrMap_Text (Attrs (newSpan h up tk (itemS1 stmt) out)) xattr_DBStatement = stmt"
  unfolding newSpan_System newSpan_Name S1_Attrs newSpan_Kind
  by (simp_all add: dbRule_def AttrMap_Text_def xattr_defs itemS1_def item0_def wire0_def)

lemma itemA_Attrs:
  "Attrs (newSpan h up tk (itemA kvs) out) = [''service.name'' \<mapsto> AString ''web''] ++ kvs"
  by (simp add: newSpan_Attrs itemA_def item0_def wire0_def otlpSetAttrs_def)

text \<open>
  Claim C1 says that \<open>GroupID\<close> is the xxHash of \<open>Kind\<close>, then \<open>Name\<close> after the rewrite
  by the \<open>db.statement\<close> rule, then \<open>System\<close>, then the db extras. \<open>newSpan\<close> writes \<open>Kind\<close>
  and \<open>Name\<close> to the digest before it calls \<open>assignSystemAndGroupID\<close>, and the rule
  replaces \<open>Name\<close> by the statement only afterwards: the name that is hashed is the one
  on the wire. For the span of scenario S1, named \<open>query\<close>, the \<open>GroupID\<close> is not the
  hash of the concatenation with the rewritten name.
\<close>

theorem fingerprint_rewritten_name_counterexample:
  "GroupID (newSpan XXH64 ToUpper_ascii fields_tokenizer
              (itemS1 ''SELECT * FROM users WHERE id = 1'') zeroSpan) \<noteq>
   XXH64 (Kind (newSpan XXH64 ToUpper_ascii fields_tokenizer
                  (itemS1 ''SELECT * FROM users WHERE id = 1'') zeroSpan) @
          Name (newSpan XXH64 ToUpper_ascii fields_tokenizer
                  (itemS1 ''SELECT * FROM users WHERE id = 1'') zeroSpan) @
          System (newSpan XXH64 ToUpper_ascii fields_tokenizer
                  (itemS1 ''SELECT * FROM users WHERE id = 1'') zeroSpan) @
          dbExtras ToUpper_ascii fields_tokenizer
            (Attrs (newSpan XXH64 ToUpper_ascii fields_tokenizer
                  (itemS1 ''SELECT * FROM users WHERE id = 1'') zeroSpan)))"
proof -
  have neq: "XXH64 ''clientquerydb:postgresqlusersSELECTFROMWHERE'' \<noteq>
      XXH64 ''clientSELECT * FROM users WHERE id = 1db:postgresqlusersSELECTFROMWHERE''"
    by code_simp
  have w: "wName (pbSpan (itemS1 ''SELECT * FROM users WHERE id = 1'')) = ''query''"
    by (simp add: itemS1_def item0_def wire0_def)
  show ?thesis
    unfolding newSpan_fingerprint [of XXH64] w
    using neq by (simp add: S1_built dbExtras_def S1_tokens)
qed


text \<open>
  Claim C1, amended: for every built span, \<open>GroupID\<close> is the 64-bit hash of the
  concatenation, in this order, of the span's \<open>Kind\<close>, the name of the wire span (the
  name before any rewrite by the \<open>db.statement\<close> rule), its \<open>System\<close> string, and the db
  extras (the \<open>db.sql.table\<close> text and the texts of the SQL keyword tokens of
  \<open>db.statement\<close>, in that order); the built \<open>Name\<close> is the statement when the db rule
  applies and the statement has text, and the wire name otherwise. It holds for every
  hash function \<open>h\<close>, so for \<open>XXH64\<close>.
\<close>

theorem fingerprint_hashes_wire_name:
  "GroupID (newSpan h up tk span out) =
     h (Kind (newSpan h up tk span out) @ wName (pbSpan span) @
        System (newSpan h up tk span out) @
        dbExtras up tk (Attrs (newSpan h up tk span out))) \<and>
   Name (newSpan h up tk span out) =
     (if dbRule (Attrs (newSpan h up tk span out)) \<and>
         AttrMap_Text (Attrs (newSpan h up tk span out)) xattr_DBStatement \<noteq> []
      then AttrMap_Text (Attrs (newSpan h up tk span out)) xattr_DBStatement
      else wName (pbSpan span))"
  using newSpan_fingerprint [of h up tk span out] newSpan_Name [of h up tk span out] by simp

section \<open>The classifier cascade\<close>

text \<open>
  Claim C5 says that a span that has both \<open>rpc.system\<close> and \<open>http.route\<close> set gets a
  \<open>System\<close> that begins with \<open>rpc:\<close>. The rpc rule tests \<open>Text(rpc.system) != ""\<close>, while the
  http rule tests that the key is present: a span whose \<open>rpc.system\<close> is set to the empty
  string and whose \<open>http.route\<close> is set falls through to the http rule.
\<close>

theorem classifier_empty_rpc_counterexample:
  "AttrMap_Has (Attrs (newSpan XXH64 ToUpper_ascii fields_tokenizer
       (itemA [''rpc.system'' \<mapsto> AString [], ''http.route'' \<mapsto> AString ''/users/:id'']) zeroSpan))
     xattr_RPCSystem \<and>
   AttrMap_Has (Attrs (newSpan XXH64 ToUpper_ascii fields_tokenizer
       (itemA [''rpc.system'' \<mapsto> AString [], ''http.route'' \<mapsto> AString ''/users/:id'']) zeroSpan))
     xattr_HTTPRoute \<and>
   System (newSpan XXH64 ToUpper_ascii fields_tokenizer
       (itemA [''rpc.system'' \<mapsto> AString [], ''http.route'' \<mapsto> AString ''/users/:id'']) zeroSpan)
     = ''http:web''"
  unfolding newSpan_System itemA_Attrs
  by (simp add: AttrMap_Has_def AttrMap_Text_def AttrMap_ServiceName_def xattr_defs)

text \<open>
  Claim C5, amended: classification is a priority cascade. For every built span whose
  \<open>rpc.system\<close> attribute has non-empty text and whose \<open>http.route\<close> or \<open>http.target\<close> is
  set, \<open>System\<close> begins with \<open>rpc:\<close>; more generally the first matching rule decides
  \<open>System\<close>, in the order rpc (\<open>rpc.system\<close> has text), messaging (\<open>messaging.system\<close> has
  text), db (\<open>db.system\<close> has text), http (\<open>http.route\<close> or \<open>http.target\<close> is present),
  service fallback (no parent, or a kind other than internal), internal.
\<close>

theorem classifier_cascade:
  "(AttrMap_Text (Attrs (newSpan h up tk span out)) xattr_RPCSystem \<noteq> [] \<and>
    (AttrMap_Has (Attrs (newSpan h up tk span out)) xattr_HTTPRoute \<or>
     AttrMap_Has (Attrs (newSpan h up tk span out)) xattr_HTTPTarget) \<longrightarrow>
      take 4 (System (newSpan h up tk span out)) = ''rpc:'') \<and>
   (AttrMap_Text (Attrs (newSpan h up tk span out)) xattr_RPCSystem \<noteq> [] \<longrightarrow>
      System (newSpan h up tk span out) =
        ''rpc:'' @ AttrMap_ServiceName (Attrs (newSpan h up tk span out))) \<and>
   (AttrMap_Text (Attrs (newSpan h up tk span out)) xattr_RPCSystem = [] \<and>
    AttrMap_Text (Attrs (newSpan h up tk span out)) xattr_MessagingSystem \<noteq> [] \<longrightarrow>
      System (newSpan h up tk span out) =
        ''messaging:'' @ AttrMap_Text (Attrs (newSpan h up tk span out)) xattr_MessagingSystem) \<and>
   (AttrMap_Text (Attrs (newSpan h up tk span out)) xattr_RPCSystem = [] \<and>
    AttrMap_Text (Attrs (newSpan h up tk span out)) xattr_MessagingSystem = [] \<and>
    AttrMap_Text (Attrs (newSpan h up tk span out)) xattr_DBSystem \<noteq> [] \<longrightarrow>
      System (newSpan h up tk span out) =
        ''db:'' @ AttrMap_Text (Attrs (newSpan h up tk span out)) xattr_DBSystem) \<and>
   (AttrMap_Text (Attrs (newSpan h up tk span out)) xattr_RPCSystem = [] \<and>
    AttrMap_Text (Attrs (newSpan h up tk span out)) xattr_MessagingSystem = [] \<and>
    AttrMap_Text (Attrs (newSpan h up tk span out)) xattr_DBSystem = [] \<and>
    (AttrMap_Has (Attrs (newSpan h up tk span out)) xattr_HTTPRoute \<or>
     AttrMap_Has (Attrs (newSpan h up tk span out)) xattr_HTTPTarget) \<longrightarrow>
      System (newSpan h up tk span out) =
        ''http:'' @ AttrMap_ServiceName (Attrs (newSpan h up tk span out))) \<and>
   (AttrMap_Text (Attrs (newSpan h up tk span out)) xattr_RPCSystem = [] \<and>
    AttrMap_Text (Attrs (newSpan h up tk span out)) xattr_MessagingSystem = [] \<and>
    AttrMap_Text (Attrs (newSpan h up tk span out)) xattr_DBSystem = [] \<and>
    \<not> AttrMap_Has (Attrs (newSpan h up tk span out)) xattr_HTTPRoute \<and>
    \<not> AttrMap_Has (Attrs (newSpan h up tk span out)) xattr_HTTPTarget \<and>
    (ParentID (newSpan h up tk span out) = 0 \<or> Kind (newSpan h up tk span out) \<noteq> ''internal'') \<longrightarrow>
      System (newSpan h up tk span out) =
        ''service:'' @ AttrMap_ServiceName (Attrs (newSpan h up tk span out))) \<and>
   (AttrMap_Text (Attrs (newSpan h up tk span out)) xattr_RPCSystem = [] \<and>
    AttrMap_Text (Attrs (newSpan h up tk span out)) xattr_MessagingSystem = [] \<and>
    AttrMap_Text (Attrs (newSpan h up tk span out)) xattr_DBSystem = [] \<and>
    \<not> AttrMap_Has (Attrs (newSpan h up tk span out)) xattr_HTTPRoute \<and>
    \<not> AttrMap_Has (Attrs (newSpan h up tk span out)) xattr_HTTPTarget \<and>
    ParentID (newSpan h up tk span out) \<noteq> 0 \<and> Kind (newSpan h up tk span out) = ''internal'' \<longrightarrow>
      System (newSpan h up tk span out) = ''internal'')"
  using newSpan_System [of h up tk span out] by simp

theorem classifier_cascade_witness:
  "System (newSpan XXH64 ToUpper_ascii fields_tokenizer
     (itemA [''rpc.system'' \<mapsto> AString ''grpc'', ''http.route'' \<mapsto> AString ''/users/:id'']) zeroSpan)
     = ''rpc:web'' \<and>
   System (newSpan XXH64 ToUpper_ascii fields_tokenizer
     (itemA [''messaging.system'' \<mapsto> AString ''kafka'', ''db.system'' \<mapsto> AString ''redis'']) zeroSpan)
     = ''messaging:kafka'' \<and>
   System (newSpan XXH64 ToUpper_ascii fields_tokenizer
     (itemA [''db.system'' \<mapsto> AString ''postgresql'', ''http.target'' \<mapsto> AString ''/q'']) zeroSpan)
     = ''db:postgresql'' \<and>
   System (newSpan XXH64 ToUpper_ascii fields_tokenizer
     (itemA [''http.route'' \<mapsto> AString ''/users/:id'']) zeroSpan) = ''http:web'' \<and>
   System (newSpan XXH64 ToUpper_ascii fields_tokenizer (itemA Map.empty) zeroSpan) = ''service:web'' \<and>
   System (newSpan XXH64 ToUpper_ascii fields_tokenizer
     (item0 (wire0\<lparr>ParentSpanId := [7, 0, 0, 0, 0, 0, 0, 0], wKind := SPAN_KIND_INTERNAL\<rparr>)) zeroSpan)
     = ''internal''"
proof -
  have a: "Attrs (newSpan h up tk (item0 (wire0\<lparr>ParentSpanId := p, wKind := kd\<rparr>)) out) =
      [''service.name'' \<mapsto> AString ''web'']" for h up tk p kd out
    by (simp add: newSpan_Attrs item0_def wire0_def otlpSetAttrs_def)
  have k: "Kind (newSpan h up tk (itemA kvs) out) = ''client''" for h up tk kvs out
    by (simp add: newSpan_Kind itemA_def item0_def wire0_def)
  have p: "ParentID (newSpan h up tk (itemA kvs) out) = 0" for h up tk kvs out
    by (simp add: newSpan_ParentID itemA_def item0_def wire0_def)
  have k2: "Kind (newSpan h up tk (item0 (wire0\<lparr>ParentSpanId := p, wKind := SPAN_KIND_INTERNAL\<rparr>)) out)
      = ''internal''" for h up tk p out
    by (simp add: newSpan_Kind item0_def wire0_def)
  have p2: "ParentID (newSpan h up tk (item0 (wire0\<lparr>ParentSpanId := [7, 0, 0, 0, 0, 0, 0, 0],
      wKind := kd\<rparr>)) out) = 7" for h up tk kd out
    by (simp add: newSpan_ParentID item0_def wire0_def)
  show ?thesis
    using
      classifier_cascade [where h = XXH64 and up = ToUpper_ascii and tk = fields_tokenizer
        and out = zeroSpan
        and span = "itemA [''rpc.system'' \<mapsto> AString ''grpc'', ''http.route'' \<mapsto> AString ''/users/:id'']"]
      classifier_cascade [where h = XXH64 and up = ToUpper_ascii and tk = fields_tokenizer
        and out = zeroSpan
        and span = "itemA [''messaging.system'' \<mapsto> AString ''kafka'', ''db.system'' \<mapsto> AString ''redis'']"]
      classifier_cascade [where h = XXH64 and up = ToUpper_ascii and tk = fields_tokenizer
        and out = zeroSpan
        and span = "itemA [''db.system'' \<mapsto> AString ''postgresql'', ''http.target'' \<mapsto> AString ''/q'']"]
      classifier_cascade [where h = XXH64 and up = ToUpper_ascii and tk = fields_tokenizer
        and out = zeroSpan and span = "itemA [''http.route'' \<mapsto> AString ''/users/:id'']"]
      classifier_cascade [where h = XXH64 and up = ToUpper_ascii and tk = fields_tokenizer
        and out = zeroSpan and span = "itemA Map.empty"]
      classifier_cascade [where h = XXH64 and up = ToUpper_ascii and tk = fields_tokenizer
        and out = zeroSpan
        and span = "item0 (wire0\<lparr>ParentSpanId := [7, 0, 0, 0, 0, 0, 0, 0], wKind := SPAN_KIND_INTERNAL\<rparr>)"]
    unfolding itemA_Attrs a k p k2 p2
    by (simp add: AttrMap_Has_def AttrMap_Text_def AttrMap_ServiceName_def xattr_defs)
qed

section \<open>Statements that differ in literals\<close>

lemma Text_cong: "m1 k = m2 k \<Longrightarrow> AttrMap_Text m1 k = AttrMap_Text m2 k"
  by (simp add: AttrMap_Text_def)

lemma Has_cong: "m1 k = m2 k \<Longrightarrow> AttrMap_Has m1 k = AttrMap_Has m2 k"
  by (simp add: AttrMap_Has_def)

text \<open>
  Claim C2 says that two spans that differ only in \<open>db.statement\<close> get equal \<open>GroupID\<close>
  when both statements tokenize to the same sequence of SQL keyword tokens, the keywords
  being taken without regard to case. \<open>isSQLKeyword\<close> upper-cases a token only to test
  it; \<open>hashDBStmt\<close> writes \<open>token.Text\<close> to the digest as the statement spells it. The
  statements \<open>select * from users where id = 1\<close> and \<open>SELECT * FROM users WHERE id = 1\<close>
  have the same keywords up to case, SELECT, FROM, WHERE, and the spans of scenario S1
  built from them get different \<open>GroupID\<close>.
\<close>

theorem keyword_case_counterexample:
  "map (\<lambda>t. ToUpper_ascii (Text t))
     (stmtKeywords ToUpper_ascii fields_tokenizer ''select * from users where id = 1'') =
   map (\<lambda>t. ToUpper_ascii (Text t))
     (stmtKeywords ToUpper_ascii fields_tokenizer ''SELECT * FROM users WHERE id = 1'') \<and>
   map (\<lambda>t. ToUpper_ascii (Text t))
     (stmtKeywords ToUpper_ascii fields_tokenizer ''select * from users where id = 1'') =
   [''SELECT'', ''FROM'', ''WHERE''] \<and>
   GroupID (newSpan XXH64 ToUpper_ascii fields_tokenizer
              (itemS1 ''select * from users where id = 1'') zeroSpan) \<noteq>
   GroupID (newSpan XXH64 ToUpper_ascii fields_tokenizer
              (itemS1 ''SELECT * FROM users WHERE id = 1'') zeroSpan)"
proof -
  have lower: "stmtKeywords ToUpper_ascii fields_tokenizer ''select * from users where id = 1'' =
      [Token IdentToken ''select'', Token IdentToken ''from'', Token IdentToken ''where'']"
    by code_simp
  have up3: "map ToUpper_ascii [''select'', ''from'', ''where''] = [''SELECT'', ''FROM'', ''WHERE'']"
    by code_simp
  have up4: "map ToUpper_ascii [''SELECT'', ''FROM'', ''WHERE''] = [''SELECT'', ''FROM'', ''WHERE'']"
    by code_simp
  have neq: "XXH64 ''clientquerydb:postgresqlusersselectfromwhere'' \<noteq>
      XXH64 ''clientquerydb:postgresqlusersSELECTFROMWHERE''"
    by code_simp
  have w: "wName (pbSpan (itemS1 stmt)) = ''query''" for stmt
    by (simp add: itemS1_def item0_def wire0_def)
  have ids: "GroupID (newSpan XXH64 ToUpper_ascii fields_tokenizer
              (itemS1 ''select * from users where id = 1'') zeroSpan) \<noteq>
      GroupID (newSpan XXH64 ToUpper_ascii fields_tokenizer
              (itemS1 ''SELECT * FROM users WHERE id = 1'') zeroSpan)"
    unfolding newSpan_fingerprint [of XXH64] w
    using neq by (simp add: S1_built dbExtras_def S1_tokens lower)
  show ?thesis
    using ids up3 up4 by (simp add: lower S1_tokens)
qed

text \<open>
  Claim C2, amended: take two built spans that are identical except for their
  \<open>db.statement\<close> attribute (so they share \<open>db.system\<close> and \<open>db.sql.table\<close>). If both
  statements tokenize to the same sequence of SQL keyword tokens, spelled alike (a
  keyword token is an identifier token whose text matches the keyword set whatever its
  case, and it is mixed in with its text as written), the two spans get equal
  \<open>GroupID\<close>: the tokens of the statement that are not keywords (literals, identifiers,
  whitespace) do not reach the fingerprint. It holds for every hash function, every
  tokenizer and every upper-casing.
\<close>

theorem statement_literals_do_not_matter:
  assumes wire: "pbSpan item2 = (pbSpan item1)\<lparr>Attributes := Attributes (pbSpan item2)\<rparr>"
    and res: "resource item2 = resource item1"
    and others: "\<forall>k. k \<noteq> xattr_DBStatement \<longrightarrow>
                   Attributes (pbSpan item1) k = Attributes (pbSpan item2) k"
    and kws:
      "stmtKeywords up tk (AttrMap_Text (Attrs (newSpan h up tk item1 out)) xattr_DBStatement) =
       stmtKeywords up tk (AttrMap_Text (Attrs (newSpan h up tk item2 out)) xattr_DBStatement)"
  shows "GroupID (newSpan h up tk item1 out) = GroupID (newSpan h up tk item2 out)"
proof -
  let ?s1 = "newSpan h up tk item1 out" and ?s2 = "newSpan h up tk item2 out"
  have eq: "Attrs ?s1 k = Attrs ?s2 k" if "k \<noteq> xattr_DBStatement" for k
    using that others res by (simp add: newSpan_Attrs otlpSetAttrs_def map_add_def)
  have kind: "Kind ?s1 = Kind ?s2"
    by (simp add: newSpan_Kind) (subst wire, simp)
  have parent: "ParentID ?s1 = ParentID ?s2"
    by (simp add: newSpan_ParentID) (subst wire, simp)
  have name: "wName (pbSpan item1) = wName (pbSpan item2)"
    by (subst wire, simp)
  have svc: "AttrMap_ServiceName (Attrs ?s1) = AttrMap_ServiceName (Attrs ?s2)"
    using eq [of xattr_ServiceName] by (simp add: AttrMap_ServiceName_def xattr_defs)
  have rpc: "AttrMap_Text (Attrs ?s1) xattr_RPCSystem = AttrMap_Text (Attrs ?s2) xattr_RPCSystem"
    by (rule Text_cong, rule eq) (simp add: xattr_defs)
  have msg: "AttrMap_Text (Attrs ?s1) xattr_MessagingSystem =
      AttrMap_Text (Attrs ?s2) xattr_MessagingSystem"
    by (rule Text_cong, rule eq) (simp add: xattr_defs)
  have db: "AttrMap_Text (Attrs ?s1) xattr_DBSystem = AttrMap_Text (Attrs ?s2) xattr_DBSystem"
    by (rule Text_cong, rule eq) (simp add: xattr_defs)
  have tbl: "AttrMap_Text (Attrs ?s1) xattr_DBSqlTable = AttrMap_Text (Attrs ?s2) xattr_DBSqlTable"
    by (rule Text_cong, rule eq) (simp add: xattr_defs)
  have route: "AttrMap_Has (Attrs ?s1) xattr_HTTPRoute = AttrMap_Has (Attrs ?s2) xattr_HTTPRoute"
    by (rule Has_cong, rule eq) (simp add: xattr_defs)
  have target: "AttrMap_Has (Attrs ?s1) xattr_HTTPTarget = AttrMap_Has (Attrs ?s2) xattr_HTTPTarget"
    by (rule Has_cong, rule eq) (simp add: xattr_defs)
  have sys: "System ?s1 = System ?s2"
    by (subst (1 2) newSpan_System) (simp only: svc rpc msg db route target kind parent)
  have extras: "dbExtras up tk (Attrs ?s1) = dbExtras up tk (Attrs ?s2)"
    by (simp only: dbExtras_def dbRule_def rpc msg db tbl kws)
  show ?thesis
    by (subst (1 2) newSpan_fingerprint) (simp only: kind name sys extras)
qed

theorem statement_literals_do_not_matter_witness:
  "GroupID (newSpan XXH64 ToUpper_ascii fields_tokenizer
              (itemS1 ''SELECT * FROM users WHERE id = 1'') zeroSpan) =
   GroupID (newSpan XXH64 ToUpper_ascii fields_tokenizer
              (itemS1 ''SELECT * FROM users WHERE id = 42'') zeroSpan)"
proof -
  have wire: "pbSpan (itemS1 b) = (pbSpan (itemS1 a))\<lparr>Attributes := Attributes (pbSpan (itemS1 b))\<rparr>"
    for a b
    by (simp add: itemS1_def item0_def wire0_def)
  have res: "resource (itemS1 b) = resource (itemS1 a)" for a b
    by (simp add: itemS1_def item0_def)
  have others: "\<forall>k. k \<noteq> xattr_DBStatement \<longrightarrow>
      Attributes (pbSpan (itemS1 a)) k = Attributes (pbSpan (itemS1 b)) k" for a b
    by (simp add: itemS1_def item0_def wire0_def xattr_defs)
  show ?thesis
    by (rule statement_literals_do_not_matter [OF wire res others])
       (simp add: S1_built S1_tokens)
qed

section \<open>Export\<close>

text \<open>\<open>process\<close> returns when every \<open>ResourceSpans\<close> of the request carries a resource.\<close>

lemma process_returns:
  "(\<forall>rss \<in> set rs. Resource rss \<noteq> None) \<Longrightarrow> \<exists>items. process proj rs st = Returned items"
  by (induction rs arbitrary: st) auto

text \<open>
  Claim C4 says that \<open>Export\<close> fails with the gRPC code \<open>InvalidArgument\<close> when the
  metadata is absent or the \<open>uptrace-dsn\<close> header is missing, and with \<open>NotFound\<close> when the
  token matches no project. Only the cancelled context is answered with a status error
  (\<open>status.Error(codes.Canceled, ...)\<close>); the other failures are plain errors made by
  \<open>errors.New\<close> and \<open>fmt.Errorf\<close>, which carry no code: their gRPC code is \<open>Unknown\<close>.
\<close>

theorem export_plain_errors_counterexample:
  "Export ParseDSN_token quote_plain [project0] None None \<lparr>reqResourceSpans = [rss0]\<rparr> =
     Failure (PlainError ''metadata is empty'') \<and>
   status_Code (PlainError ''metadata is empty'') = Unknown \<and>
   Export ParseDSN_token quote_plain [project0] None (Some Map.empty) \<lparr>reqResourceSpans = [rss0]\<rparr> =
     Failure (PlainError ''uptrace-dsn header is required'') \<and>
   status_Code (PlainError ''uptrace-dsn header is required'') = Unknown \<and>
   Export ParseDSN_token quote_plain [project0] None
       (Some [''uptrace-dsn'' \<mapsto> [''nobody@localhost:14317/1'']]) \<lparr>reqResourceSpans = [rss0]\<rparr> =
     Failure (PlainError (''project with token '' @ quote_plain ''nobody'' @ '' not found'')) \<and>
   status_Code (PlainError (''project with token '' @ quote_plain ''nobody'' @ '' not found'')) = Unknown"
  by (simp add: Export_def MD_Get_def findProjectByDSN_def ParseDSN_token_def project0_def)

text \<open>
  Claim C4, amended: \<open>Export\<close> fails with the gRPC status code \<open>Canceled\<close> when the
  incoming context is already cancelled. Otherwise it fails with the plain error
  \<open>metadata is empty\<close> when the transport metadata is absent, with the plain error
  \<open>uptrace-dsn header is required\<close> when the header is missing, and with the plain error
  \<open>project with token <quoted token> not found\<close> when the DSN parses to a non-empty token
  that matches no configured project; none of the three carries a gRPC status code.
  With a token that matches a project, and a request every \<open>ResourceSpans\<close> of which has
  a resource, it returns the empty success response.
\<close>

theorem export_outcomes:
  "(ctxErr = Some context_Canceled \<longrightarrow>
      Export ParseDSN quote projects ctxErr incoming req =
        Failure (StatusError Canceled ''Client cancelled, abandoning.'')) \<and>
   (ctxErr \<noteq> Some context_Canceled \<and> incoming = None \<longrightarrow>
      Export ParseDSN quote projects ctxErr incoming req =
        Failure (PlainError ''metadata is empty'')) \<and>
   (ctxErr \<noteq> Some context_Canceled \<and> incoming = Some md \<and> MD_Get md ''uptrace-dsn'' = [] \<longrightarrow>
      Export ParseDSN quote projects ctxErr incoming req =
        Failure (PlainError ''uptrace-dsn header is required'')) \<and>
   (ctxErr \<noteq> Some context_Canceled \<and> incoming = Some md \<and>
    MD_Get md ''uptrace-dsn'' = dsnStr # others \<and> dsnStr \<noteq> [] \<and>
    ParseDSN dsnStr = Inr dsn \<and> dsnToken dsn \<noteq> [] \<and>
    (\<forall>p \<in> set projects. pToken p \<noteq> dsnToken dsn) \<longrightarrow>
      Export ParseDSN quote projects ctxErr incoming req =
        Failure (PlainError (''project with token '' @ quote (dsnToken dsn) @ '' not found''))) \<and>
   (ctxErr \<noteq> Some context_Canceled \<and> incoming = Some md \<and>
    MD_Get md ''uptrace-dsn'' = dsnStr # others \<and> dsnStr \<noteq> [] \<and>
    ParseDSN dsnStr = Inr dsn \<and> dsnToken dsn \<noteq> [] \<and>
    (\<exists>p \<in> set projects. pToken p = dsnToken dsn) \<and>
    (\<forall>rss \<in> set (reqResourceSpans req). Resource rss \<noteq> None) \<longrightarrow>
      (\<exists>items. Export ParseDSN quote projects ctxErr incoming req = Response items))"
proof (intro conjI impI)
  assume "ctxErr = Some context_Canceled"
  then show "Export ParseDSN quote projects ctxErr incoming req =
        Failure (StatusError Canceled ''Client cancelled, abandoning.'')"
    by (simp add: Export_def)
next
  assume "ctxErr \<noteq> Some context_Canceled \<and> incoming = None"
  then show "Export ParseDSN quote projects ctxErr incoming req =
        Failure (PlainError ''metadata is empty'')"
    by (simp add: Export_def)
next
  assume "ctxErr \<noteq> Some context_Canceled \<and> incoming = Some md \<and> MD_Get md ''uptrace-dsn'' = []"
  then show "Export ParseDSN quote projects ctxErr incoming req =
        Failure (PlainError ''uptrace-dsn header is required'')"
    by (simp add: Export_def)
next
  assume a: "ctxErr \<noteq> Some context_Canceled \<and> incoming = Some md \<and>
    MD_Get md ''uptrace-dsn'' = dsnStr # others \<and> dsnStr \<noteq> [] \<and>
    ParseDSN dsnStr = Inr dsn \<and> dsnToken dsn \<noteq> [] \<and>
    (\<forall>p \<in> set projects. pToken p \<noteq> dsnToken dsn)"
  then have "find (\<lambda>p. pToken p = dsnToken dsn) projects = None"
    by (simp add: find_None_iff)
  with a show "Export ParseDSN quote projects ctxErr incoming req =
        Failure (PlainError (''project with token '' @ quote (dsnToken dsn) @ '' not found''))"
    by (simp add: Export_def findProjectByDSN_def)
next
  assume a: "ctxErr \<noteq> Some context_Canceled \<and> incoming = Some md \<and>
    MD_Get md ''uptrace-dsn'' = dsnStr # others \<and> dsnStr \<noteq> [] \<and>
    ParseDSN dsnStr = Inr dsn \<and> dsnToken dsn \<noteq> [] \<and>
    (\<exists>p \<in> set projects. pToken p = dsnToken dsn) \<and>
    (\<forall>rss \<in> set (reqResourceSpans req). Resource rss \<noteq> None)"
  then obtain p where p: "find (\<lambda>p. pToken p = dsnToken dsn) projects = Some p"
    by (cases "find (\<lambda>p. pToken p = dsnToken dsn) projects") (auto simp: find_None_iff)
  from a obtain items where "process p (reqResourceSpans req) no_sends = Returned items"
    using process_returns [of "reqResourceSpans req" p no_sends] by blast
  with a p show "\<exists>items. Export ParseDSN quote projects ctxErr incoming req = Response items"
    by (simp add: Export_def findProjectByDSN_def)
qed

theorem export_outcomes_witness:
  "Export ParseDSN_token quote_plain [project0] (Some context_Canceled)
       (Some [''uptrace-dsn'' \<mapsto> [''secret@localhost:14317/1'']]) \<lparr>reqResourceSpans = [rss0]\<rparr> =
     Failure (StatusError Canceled ''Client cancelled, abandoning.'') \<and>
   Export ParseDSN_token quote_plain [project0] None None \<lparr>reqResourceSpans = [rss0]\<rparr> =
     Failure (PlainError ''metadata is empty'') \<and>
   Export ParseDSN_token quote_plain [project0] (Some context_DeadlineExceeded) (Some Map.empty)
       \<lparr>reqResourceSpans = [rss0]\<rparr> =
     Failure (PlainError ''uptrace-dsn header is required'') \<and>
   Export ParseDSN_token quote_plain [project0] None
       (Some [''uptrace-dsn'' \<mapsto> [''nobody@localhost:14317/1'']]) \<lparr>reqResourceSpans = [rss0]\<rparr> =
     Failure (PlainError (''project with token '' @ quote_plain ''nobody'' @ '' not found'')) \<and>
   (\<exists>items. Export ParseDSN_token quote_plain [project0] None
       (Some [''uptrace-dsn'' \<mapsto> [''secret@localhost:14317/1'']]) \<lparr>reqResourceSpans = [rss0]\<rparr> =
     Response items)"
  using
    export_outcomes [where ParseDSN = ParseDSN_token and quote = quote_plain
      and projects = "[project0]" and ctxErr = "Some context_Canceled"
      and incoming = "Some [''uptrace-dsn'' \<mapsto> [''secret@localhost:14317/1'']]"
      and req = "\<lparr>reqResourceSpans = [rss0]\<rparr>"]
    export_outcomes [where ParseDSN = ParseDSN_token and quote = quote_plain
      and projects = "[project0]" and ctxErr = None and incoming = None
      and req = "\<lparr>reqResourceSpans = [rss0]\<rparr>"]
    export_outcomes [where ParseDSN = ParseDSN_token and quote = quote_plain
      and projects = "[project0]" and ctxErr = "Some context_DeadlineExceeded"
      and incoming = "Some Map.empty" and md = Map.empty
      and req = "\<lparr>reqResourceSpans = [rss0]\<rparr>"]
    export_outcomes [where ParseDSN = ParseDSN_token and quote = quote_plain
      and projects = "[project0]" and ctxErr = None
      and incoming = "Some [''uptrace-dsn'' \<mapsto> [''nobody@localhost:14317/1'']]"
      and md = "[''uptrace-dsn'' \<mapsto> [''nobody@localhost:14317/1'']]"
      and dsnStr = "''nobody@localhost:14317/1''" and others = "[]"
      and dsn = "\<lparr>dsnToken = ''nobody''\<rparr>"
      and req = "\<lparr>reqResourceSpans = [rss0]\<rparr>"]
    export_outcomes [where ParseDSN = ParseDSN_token and quote = quote_plain
      and projects = "[project0]" and ctxErr = None
      and incoming = "Some [''uptrace-dsn'' \<mapsto> [''secret@localhost:14317/1'']]"
      and md = "[''uptrace-dsn'' \<mapsto> [''secret@localhost:14317/1'']]"
      and dsnStr = "''secret@localhost:14317/1''" and others = "[]"
      and dsn = "\<lparr>dsnToken = ''secret''\<rparr>"
      and req = "\<lparr>reqResourceSpans = [rss0]\<rparr>"]
  by (simp add: MD_Get_def ParseDSN_token_def project0_def rss0_def)

text \<open>
  A request that holds a \<open>ResourceSpans\<close> without a resource makes \<open>process\<close> read through
  a nil pointer.
\<close>

lemma export_panics:
  "Export ParseDSN_token quote_plain [project0] None
       (Some [''uptrace-dsn'' \<mapsto> [''secret@localhost:14317/1'']])
       \<lparr>reqResourceSpans = [rss0\<lparr>Resource := None\<rparr>]\<rparr> = Panic no_sends"
  by (simp add: Export_def MD_Get_def findProjectByDSN_def ParseDSN_token_def project0_def rss0_def)

text \<open>
  The items of one \<open>ResourceSpans\<close> share its map: after \<open>process\<close> has gone through two
  libraries, the item of the first library reads the name of the second one, as the
  item of the second library does.
\<close>

lemma process_shares_resource_map:
  "process project0 [rss2] no_sends = Returned st \<Longrightarrow>
   map refResource (sent st) = [0, 0] \<and>
   map (\<lambda>item. wName (pbSpan (otlpSpan_load (resourceMaps st) item))) (sent st) =
     [''query'', ''insert''] \<and>
   map (\<lambda>item. AttrMap_Text (resource (otlpSpan_load (resourceMaps st) item))
                  xattr_OtelLibraryName) (sent st) = [''otelsql'', ''otelsql'']"
  by (auto simp add: rss2_def no_sends_def otlpSpan_load_def otlpAttrs_def otlpSetAttrs_def
      GetName_def GetVersion_def AttrMap_Text_def wire0_def Let_def xattr_defs)

section \<open>The batcher loop\<close>

text \<open>
  Until the done signal the loop runs its body once per event; on the done signal it
  returns, after a last flush when the buffer is not empty. Without the done signal it
  does not return.
\<close>

lemma processLoop_from_until_done:
  "DoneClosed \<notin> set evs \<Longrightarrow>
   processLoop_from batchSize (evs @ DoneClosed # later) st =
     Some (let st1 = foldl (\<lambda>s ev. processLoop_body batchSize ev s) st evs
           in if length (spans st1) > 0 then flushSpans st1 else st1)"
proof (induction evs arbitrary: st)
  case Nil
  then show ?case by simp
next
  case (Cons ev evs)
  then show ?case by (cases ev) simp_all
qed

lemma processLoop_from_waiting:
  "DoneClosed \<notin> set evs \<Longrightarrow> processLoop_from batchSize evs st = None"
proof (induction evs arbitrary: st)
  case Nil
  then show ?case by simp
next
  case (Cons ev evs)
  then show ?case by (cases ev) simp_all
qed

text \<open>
  Claim C9: in the batcher loop, when an arriving item brings the buffer to \<open>batchSize\<close>
  items, the buffer is handed to the flusher as one batch of exactly \<open>batchSize\<close> items
  and a fresh buffer is started; when the timer fires with a buffer of \<open>k\<close> items,
  \<open>0 < k < batchSize\<close>, it is handed over as one batch of \<open>k\<close> items; and on the shutdown
  signal the loop exits, and a residual non-empty buffer is handed to the flusher before
  the loop returns.
\<close>

theorem batcher_flushes:
  "(length (spans st) + 1 = batchSize \<longrightarrow>
      processLoop_body batchSize (Recv x) st =
        st\<lparr>spans := [], flushed := flushed st @ [spans st @ [x]]\<rparr> \<and>
      length (spans st @ [x]) = batchSize) \<and>
   (0 < length (spans st) \<and> length (spans st) < batchSize \<longrightarrow>
      processLoop_body batchSize TimerFired st =
        st\<lparr>spans := [], flushed := flushed st @ [spans st]\<rparr>) \<and>
   (DoneClosed \<notin> set evs \<longrightarrow>
      processLoop_from batchSize (evs @ DoneClosed # later) st =
        Some (let st1 = foldl (\<lambda>s ev. processLoop_body batchSize ev s) st evs
              in if spans st1 \<noteq> [] then st1\<lparr>flushed := flushed st1 @ [spans st1]\<rparr> else st1))"
proof (intro conjI impI)
  assume "length (spans st) + 1 = batchSize"
  then show "processLoop_body batchSize (Recv x) st =
        st\<lparr>spans := [], flushed := flushed st @ [spans st @ [x]]\<rparr>"
    by (auto simp add: processLoop_body_def flushSpans_def Let_def)
next
  assume "length (spans st) + 1 = batchSize"
  then show "length (spans st @ [x]) = batchSize" by simp
next
  assume "0 < length (spans st) \<and> length (spans st) < batchSize"
  then show "processLoop_body batchSize TimerFired st =
        st\<lparr>spans := [], flushed := flushed st @ [spans st]\<rparr>"
    by (auto simp add: processLoop_body_def flushSpans_def Let_def)
next
  assume "DoneClosed \<notin> set evs"
  then show "processLoop_from batchSize (evs @ DoneClosed # later) st =
        Some (let st1 = foldl (\<lambda>s ev. processLoop_body batchSize ev s) st evs
              in if spans st1 \<noteq> [] then st1\<lparr>flushed := flushed st1 @ [spans st1]\<rparr> else st1)"
    by (simp add: processLoop_from_until_done flushSpans_def Let_def)
qed

theorem batcher_flushes_witness:
  "processLoop_body 2 (Recv (2::nat)) \<lparr>spans = [1], flushed = []\<rparr> =
     \<lparr>spans = [], flushed = [[1, 2]]\<rparr> \<and>
   processLoop_body 2 TimerFired \<lparr>spans = [3::nat], flushed = [[1, 2]]\<rparr> =
     \<lparr>spans = [], flushed = [[1, 2], [3]]\<rparr> \<and>
   processLoop 2 [Recv (1::nat), Recv 2, Recv 3, TimerFired, TimerFired, Recv 4, DoneClosed, Recv 5] =
     Some \<lparr>spans = [4], flushed = [[1, 2], [3], [4]]\<rparr>"
  using
    batcher_flushes [where st = "\<lparr>spans = [1::nat], flushed = []\<rparr>" and x = 2 and batchSize = 2
      and evs = "[]" and later = "[]"]
    batcher_flushes [where st = "\<lparr>spans = [3::nat], flushed = [[1, 2]]\<rparr>" and x = 0
      and batchSize = 2 and evs = "[]" and later = "[]"]
    batcher_flushes [where st = "\<lparr>spans = [], flushed = []\<rparr>" and x = 0 and batchSize = 2
      and evs = "[Recv (1::nat), Recv 2, Recv 3, TimerFired, TimerFired, Recv 4]"
      and later = "[Recv 5]"]
  by (simp add: processLoop_def processLoop_body_def flushSpans_def Let_def)

text \<open>
  Across an iteration no item is lost or repeated, and a buffer that is below
  \<open>batchSize\<close> stays below it.
\<close>

lemma processLoop_body_keeps_items:
  "concat (flushed (processLoop_body batchSize ev st)) @ spans (processLoop_body batchSize ev st) =
     concat (flushed st) @ spans st @ (case ev of Recv x \<Rightarrow> [x] | _ \<Rightarrow> [])"
  by (cases ev) (simp_all add: processLoop_body_def flushSpans_def Let_def)

lemma processLoop_body_buffer_below:
  "0 < batchSize \<Longrightarrow> length (spans st) < batchSize \<Longrightarrow>
   length (spans (processLoop_body batchSize ev st)) < batchSize"
  by (cases ev) (auto simp add: processLoop_body_def flushSpans_def Let_def)


end
